theory Spec2Isabelle
  imports Complex_Main "HOL-Library.AList"
begin

section \<open>Python values\<close>

text \<open>
  A Python float is a finite number, one of the two infinities, or NaN. The special
  values follow IEEE 754 as Python exposes them. An operation on finite numbers gives the
  exact real result: rounding to the nearest double is not modelled, and with it neither
  underflow to zero, nor the overflow of \<open>+\<close>, \<open>-\<close>, \<open>*\<close> and \<open>/\<close> to an infinity, nor the
  sign of zero. The range error of \<open>math.exp\<close> is modelled. Results about finite values
  are therefore stated for values far inside the range of doubles.
\<close>

datatype pyfloat = Fin real | PInf | NInf | NaN

text \<open>
  The exceptions the modelled code can raise. \<open>Other\<close> stands for an exception raised
  by a collaborator that is not part of the repository (the estimator, the file system).
\<close>

datatype py_error = TypeError | ValueError | OverflowError | ZeroDivisionError
  | IndexError | KeyError | AttributeError | Other string

text \<open>
  A decoded JSON value. A \<open>str\<close> value is its list of Unicode code points, since
  \<open>strip\<close> and \<open>lower\<close> work on code points. Dictionary keys are only ever compared for
  equality, so they are kept as byte strings. A dictionary is the list of its items in
  insertion order; the keys of a dictionary are distinct.
\<close>

datatype pyval = PNone | PBool bool | PInt int | PFloat pyfloat | PStr "nat list"
  | PList "pyval list" | PDict "(string \<times> pyval) list"

type_synonym pydict = "(string \<times> pyval) list"

section \<open>main\_server\_with\_sync\_endpoint.py\<close>

subsection \<open>Constants\<close>

definition FEATURE_KEYS :: "string list" where
  "FEATURE_KEYS =
    [''eloDiff'', ''ppgDiff'', ''homeOsl'', ''drawOsl'', ''awayOsl'',
     ''poissonHomeProb'', ''avgDrawPercent'', ''upsetScoreDiff'',
     ''xgHomeFor'', ''xgAwayFor'', ''xgHomeAgainst'', ''xgAwayAgainst'']"

definition FIELD_MAPPING :: "(string \<times> string list) list" where
  "FIELD_MAPPING =
    [(''label'', [''finalResult'', ''finalPrediction'', ''label'', ''finalPredClean'',
                  ''prediction'', ''result'', ''outcome'']),
     (''features'', [''features'', ''feature_dict'', ''feature'', ''featureDict'', ''data'']),
     (''warningRules'', [''warningRules'', ''warning_rules'', ''patterns'',
                         ''pattern_rules'', ''missPatterns'']),
     (''successRules'', [''successRules'', ''success_rules'', ''success'',
                         ''successPatterns''])]"

text \<open>\<open>FIELD_MAPPING[name]\<close>, for the four names the handlers use.\<close>

definition field_keys :: "string \<Rightarrow> string list" where
  "field_keys name = (case map_of FIELD_MAPPING name of Some ks \<Rightarrow> ks | None \<Rightarrow> [])"

subsection \<open>Field normalizer\<close>

text \<open>
  \<open>normalize_field(data, field_name, allowed_keys)\<close>: the loop over \<open>allowed_keys\<close>
  returns at the first key that is in \<open>data\<close> with a value other than \<open>None\<close>, and
  \<open>None\<close> after the loop. The argument \<open>field_name\<close> is used for nothing.
\<close>

fun normalize_field :: "pydict \<Rightarrow> string list \<Rightarrow> pyval" where
  "normalize_field data [] = PNone"
| "normalize_field data (key # allowed_keys) =
     (case map_of data key of
        None \<Rightarrow> normalize_field data allowed_keys
      | Some v \<Rightarrow> (if v \<noteq> PNone then v else normalize_field data allowed_keys))"

subsection \<open>Float arithmetic\<close>

text \<open>
  The operators of Python floats on the special values. \<open>+\<close>, \<open>-\<close> and \<open>*\<close> never raise;
  \<open>/\<close> raises \<open>ZeroDivisionError\<close> on a zero divisor, whatever the dividend.
\<close>

fun fneg :: "pyfloat \<Rightarrow> pyfloat" where
  "fneg (Fin x) = Fin (- x)"
| "fneg PInf = NInf"
| "fneg NInf = PInf"
| "fneg NaN = NaN"

fun fabs :: "pyfloat \<Rightarrow> pyfloat" where
  "fabs (Fin x) = Fin \<bar>x\<bar>"
| "fabs PInf = PInf"
| "fabs NInf = PInf"
| "fabs NaN = NaN"

fun fadd :: "pyfloat \<Rightarrow> pyfloat \<Rightarrow> pyfloat" where
  "fadd (Fin x) (Fin y) = Fin (x + y)"
| "fadd (Fin x) PInf = PInf"
| "fadd (Fin x) NInf = NInf"
| "fadd PInf (Fin y) = PInf"
| "fadd PInf PInf = PInf"
| "fadd PInf NInf = NaN"
| "fadd NInf (Fin y) = NInf"
| "fadd NInf PInf = NaN"
| "fadd NInf NInf = NInf"
| "fadd NaN b = NaN"
| "fadd a NaN = NaN"

definition fsub :: "pyfloat \<Rightarrow> pyfloat \<Rightarrow> pyfloat" where
  "fsub a b = fadd a (fneg b)"

text \<open>The product of an infinity and a finite factor \<open>x\<close>: zero times infinity is NaN.\<close>

definition inf_times :: "pyfloat \<Rightarrow> real \<Rightarrow> pyfloat" where
  "inf_times i x = (if 0 < x then i else if x < 0 then fneg i else NaN)"

fun fmul :: "pyfloat \<Rightarrow> pyfloat \<Rightarrow> pyfloat" where
  "fmul (Fin x) (Fin y) = Fin (x * y)"
| "fmul (Fin x) PInf = inf_times PInf x"
| "fmul (Fin x) NInf = inf_times NInf x"
| "fmul PInf (Fin y) = inf_times PInf y"
| "fmul PInf PInf = PInf"
| "fmul PInf NInf = NInf"
| "fmul NInf (Fin y) = inf_times NInf y"
| "fmul NInf PInf = NInf"
| "fmul NInf NInf = PInf"
| "fmul NaN b = NaN"
| "fmul a NaN = NaN"

fun fdiv :: "pyfloat \<Rightarrow> pyfloat \<Rightarrow> py_error + pyfloat" where
  "fdiv a (Fin y) =
     (if y = 0 then Inl ZeroDivisionError
      else Inr (case a of
                  Fin x \<Rightarrow> Fin (x / y)
                | PInf \<Rightarrow> (if 0 < y then PInf else NInf)
                | NInf \<Rightarrow> (if 0 < y then NInf else PInf)
                | NaN \<Rightarrow> NaN))"
| "fdiv (Fin x) PInf = Inr (Fin 0)"
| "fdiv (Fin x) NInf = Inr (Fin 0)"
| "fdiv PInf PInf = Inr NaN"
| "fdiv PInf NInf = Inr NaN"
| "fdiv NInf PInf = Inr NaN"
| "fdiv NInf NInf = Inr NaN"
| "fdiv NaN PInf = Inr NaN"
| "fdiv NaN NInf = Inr NaN"
| "fdiv a NaN = Inr NaN"

text \<open>\<open>a > b\<close> and \<open>a == b\<close>: every comparison with NaN is false.\<close>

fun fgt :: "pyfloat \<Rightarrow> pyfloat \<Rightarrow> bool" where
  "fgt (Fin x) (Fin y) = (y < x)"
| "fgt (Fin x) NInf = True"
| "fgt PInf (Fin y) = True"
| "fgt PInf NInf = True"
| "fgt a b = False"

fun feq :: "pyfloat \<Rightarrow> pyfloat \<Rightarrow> bool" where
  "feq NaN b = False"
| "feq a NaN = False"
| "feq a b = (a = b)"

text \<open>The largest finite double: 53 one bits at the largest exponent.\<close>

definition DBL_MAX :: real where
  "DBL_MAX = (2 ^ 53 - 1) * 2 ^ 971"

text \<open>
  \<open>math.exp\<close> raises \<open>OverflowError\<close> when the result is too large for a double; on the
  infinities it returns \<open>inf\<close> and \<open>0.0\<close>.
\<close>

fun math_exp :: "pyfloat \<Rightarrow> py_error + pyfloat" where
  "math_exp (Fin x) = (if DBL_MAX < exp x then Inl OverflowError else Inr (Fin (exp x)))"
| "math_exp PInf = Inr PInf"
| "math_exp NInf = Inr (Fin 0)"
| "math_exp NaN = Inr NaN"

text \<open>Sequencing of computations that may raise.\<close>

definition bindE :: "'e + 'a \<Rightarrow> ('a \<Rightarrow> 'e + 'b) \<Rightarrow> 'e + 'b" where
  "bindE m f = (case m of Inl e \<Rightarrow> Inl e | Inr x \<Rightarrow> f x)"

subsection \<open>The world outside the repository\<close>

text \<open>
  What the handlers take from Python, scikit-learn and the operating system during one
  request: \<open>float\<close> and \<open>int\<close> on a \<open>str\<close> (\<open>None\<close> where they raise \<open>ValueError\<close>), the
  clock read by \<open>_timestamp_str\<close>, whether \<open>_save_model\<close> returns without raising, and
  the fitting of a classifier, which is described below.
\<close>

datatype classifier = Calibrated int | Plain

record estimator =
  predict_proba_row :: "pyfloat list \<Rightarrow> py_error + pyfloat list"
  classes :: "int list option"
  base_estimator_classes :: "int list option"

record env =
  str_to_float :: "nat list \<Rightarrow> pyfloat option"
  str_to_int :: "nat list \<Rightarrow> int option"
  timestamp_str :: "nat list"
  save_model_ok :: bool
  fit :: "classifier \<Rightarrow> pyfloat list list \<Rightarrow> int list \<Rightarrow> py_error + estimator"

text \<open>A \<open>str\<close> literal of ASCII characters, as code points.\<close>

definition ustr :: "string \<Rightarrow> nat list" where
  "ustr s = map of_char s"

subsection \<open>Vectorizer\<close>

text \<open>\<open>float(v)\<close>. An \<open>int\<close> beyond the range of doubles raises \<open>OverflowError\<close>.\<close>

fun py_float :: "('a env_scheme) \<Rightarrow> pyval \<Rightarrow> py_error + pyfloat" where
  "py_float py PNone = Inl TypeError"
| "py_float py (PBool b) = Inr (Fin (if b then 1 else 0))"
| "py_float py (PInt i) =
     (if DBL_MAX < \<bar>real_of_int i\<bar> then Inl OverflowError else Inr (Fin (real_of_int i)))"
| "py_float py (PFloat x) = Inr x"
| "py_float py (PStr s) =
     (case str_to_float py s of None \<Rightarrow> Inl ValueError | Some x \<Rightarrow> Inr x)"
| "py_float py (PList xs) = Inl TypeError"
| "py_float py (PDict d) = Inl TypeError"

text \<open>\<open>_safe_num(v, default)\<close>: the bare \<open>except\<close> turns every exception into the default.\<close>

definition safe_num :: "('a env_scheme) \<Rightarrow> pyval \<Rightarrow> pyfloat \<Rightarrow> pyfloat" where
  "safe_num py v dflt =
     (case py_float py v of
        Inl e \<Rightarrow> dflt
      | Inr x \<Rightarrow> (if feq x x then x else dflt))"

text \<open>\<open>d.get(k)\<close>: \<open>None\<close> for a missing key.\<close>

definition dict_get :: "pydict \<Rightarrow> string \<Rightarrow> pyval" where
  "dict_get d k = (case map_of d k of None \<Rightarrow> PNone | Some v \<Rightarrow> v)"

definition vec_from_features :: "('a env_scheme) \<Rightarrow> pydict \<Rightarrow> pyfloat list" where
  "vec_from_features py feat = map (\<lambda>k. safe_num py (dict_get feat k) (Fin 0)) FEATURE_KEYS"

subsection \<open>Module state and replies\<close>

text \<open>
  The module-level variables \<open>_model\<close>, \<open>_model_version\<close>, \<open>_patterns_db\<close> and
  \<open>_success_db\<close>. A handler takes the state and returns the new one with its reply: the
  dictionary it returns, an \<open>HTTPException\<close> it raises, or an exception that escapes it,
  which the framework answers with status 500.
\<close>

record state =
  model :: "estimator option"
  model_version :: "nat list"
  patterns_db :: pydict
  success_db :: pydict

text \<open>
  The detail of an \<open>HTTPException\<close> is a fixed message, except for the message of a batch
  with no valid sample, which quotes the rejection counters.
\<close>

datatype detail = Message string | No_valid_samples "(string \<times> int) list"

datatype http_error = HTTPException nat detail | Internal_Server_Error py_error

fun status_code :: "http_error + pydict \<Rightarrow> nat" where
  "status_code (Inl (HTTPException code d)) = code"
| "status_code (Inl (Internal_Server_Error e)) = 500"
| "status_code (Inr body) = 200"

subsection \<open>Predictor\<close>

definition CLASS_TO_KEY :: "(int \<times> string) list" where
  "CLASS_TO_KEY = [(0, ''home''), (1, ''draw''), (2, ''away'')]"

definition ALL_KEYS :: "string list" where
  "ALL_KEYS = [''home'', ''draw'', ''away'']"

text \<open>
  \<open>_demo_proba(vec)\<close>. Unpacking a vector that does not have 12 entries raises
  \<open>ValueError\<close>. The integer \<open>1\<close> of \<open>1 - x\<close> is converted to a float by the subtraction.
\<close>

fun demo_proba :: "pyfloat list \<Rightarrow> py_error + (string \<times> pyfloat) list" where
  "demo_proba [eloDiff, ppgDiff, homeOsl, drawOsl, awayOsl, poissonHomeProb,
               avgDrawPercent, upsetScoreDiff, xgHF, xgAF, xgHA, xgAA] =
     bindE (fdiv eloDiff (Fin 100)) (\<lambda>elo100.
     let sh = fsub (fadd (fadd (fadd (fmul (Fin 0.40) poissonHomeProb)
                                     (fmul (Fin 0.20) elo100))
                               (fmul (Fin 0.10) ppgDiff))
                         (fmul (Fin 0.15) homeOsl))
                   (fmul (Fin 0.10) (fsub xgHA xgHF)) in
     bindE (fdiv avgDrawPercent (Fin 100)) (\<lambda>draw100.
     let sd = fadd (fadd (fmul (Fin 0.30) draw100) (fmul (Fin 0.20) drawOsl))
                   (fmul (Fin 0.10) (fsub (Fin 1) (fabs ppgDiff))) in
     bindE (fdiv (fneg eloDiff) (Fin 100)) (\<lambda>nelo100.
     let sa = fadd (fadd (fadd (fmul (Fin 0.35) (fsub (Fin 1) poissonHomeProb))
                               (fmul (Fin 0.20) nelo100))
                         (fmul (Fin 0.10) (fneg ppgDiff)))
                   (fmul (Fin 0.15) awayOsl) in
     bindE (math_exp sh) (\<lambda>eh.
     bindE (math_exp sd) (\<lambda>ed.
     bindE (math_exp sa) (\<lambda>ea.
     let s = fadd (fadd eh ed) ea in
     bindE (fdiv eh s) (\<lambda>ph.
     bindE (fdiv ed s) (\<lambda>pd.
     bindE (fdiv ea s) (\<lambda>pa.
     Inr [(''home'', ph), (''draw'', pd), (''away'', pa)])))))))))"
| "demo_proba vec = Inl ValueError"

text \<open>
  \<open>_extract_proba_from_model(model, vec)\<close>. The estimator is scikit-learn's:
  \<open>predict_proba_row\<close> is the first row of \<open>model.predict_proba(X)\<close> or the exception it
  raises, \<open>classes\<close> is \<open>model.classes_\<close> and \<open>base_estimator_classes\<close> is
  \<open>model.base_estimator.classes_\<close>, each \<open>None\<close> when reading it raises. The class labels
  are integers, as \<open>retrain_automated\<close> fits them.
\<close>

fun mapE :: "('a \<Rightarrow> 'e + 'b) \<Rightarrow> 'a list \<Rightarrow> 'e + 'b list" where
  "mapE f [] = Inr []"
| "mapE f (x # xs) = bindE (f x) (\<lambda>y. bindE (mapE f xs) (\<lambda>ys. Inr (y # ys)))"

text \<open>The class list: \<open>model.classes_\<close>, else that of the base estimator, else a guess.\<close>

definition model_classes :: "('a estimator_scheme) \<Rightarrow> pyfloat list \<Rightarrow> int list" where
  "model_classes mdl probs =
     (case classes mdl of
        Some cs \<Rightarrow> cs
      | None \<Rightarrow>
          (case base_estimator_classes mdl of
             Some cs \<Rightarrow> cs
           | None \<Rightarrow> (if length probs = 2 then [0, 1] else map int [0..<length probs])))"

text \<open>
  The dictionary \<open>out\<close> after the loop over \<open>zip(classes, probs)\<close>: it starts with \<open>0.0\<close>
  for each key, and a class that \<open>CLASS_TO_KEY\<close> knows stores its probability.
\<close>

definition mapped_proba :: "int list \<Rightarrow> pyfloat list \<Rightarrow> (string \<times> pyfloat) list" where
  "mapped_proba cls_list probs =
     fold (\<lambda>(cls, p) out.
             case map_of CLASS_TO_KEY cls of
               None \<Rightarrow> out
             | Some key \<Rightarrow> AList.update key p out)
          (zip cls_list probs) (map (\<lambda>k. (k, Fin 0)) ALL_KEYS)"

definition extract_proba_from_model ::
  "('a estimator_scheme) \<Rightarrow> pyfloat list \<Rightarrow> py_error + (string \<times> pyfloat) list" where
  "extract_proba_from_model mdl vec =
     bindE (predict_proba_row mdl vec) (\<lambda>probs.
     let out = mapped_proba (model_classes mdl probs) probs;
         s = fold (\<lambda>v acc. fadd acc v) (map snd out) (Fin 0)
     in if fgt s (Fin 0)
        then mapE (\<lambda>k. case map_of out k of
                          None \<Rightarrow> Inl KeyError
                        | Some v \<Rightarrow> bindE (fdiv v s) (\<lambda>q. Inr (k, q))) ALL_KEYS
        else Inr (map (\<lambda>k. (k, Fin (1 / 3))) ALL_KEYS))"

text \<open>Truth value of a Python object, for \<open>payload.get("features") or {}\<close>.\<close>

fun truthy :: "pyval \<Rightarrow> bool" where
  "truthy PNone = False"
| "truthy (PBool b) = b"
| "truthy (PInt i) = (i \<noteq> 0)"
| "truthy (PFloat x) = (x \<noteq> Fin 0)"
| "truthy (PStr s) = (s \<noteq> [])"
| "truthy (PList xs) = (xs \<noteq> [])"
| "truthy (PDict d) = (d \<noteq> [])"

text \<open>\<open>max(proba, key=proba.get)\<close>: the first key whose value no later value exceeds.\<close>

fun max_by_value :: "(string \<times> pyfloat) list \<Rightarrow> py_error + string \<times> pyfloat" where
  "max_by_value [] = Inl ValueError"
| "max_by_value (kv # kvs) =
     Inr (fold (\<lambda>(k, v) (bk, bv). if fgt v bv then (k, v) else (bk, bv)) kvs kv)"

definition label_map :: "(string \<times> string) list" where
  "label_map = [(''home'', ''Home''), (''draw'', ''Draw''), (''away'', ''Away'')]"

text \<open>
  \<open>POST /predict-proba\<close>. A value of \<open>features\<close> that is true and not a dictionary has
  no \<open>get\<close>, which raises \<open>AttributeError\<close>.
\<close>

definition predict_proba :: "('a env_scheme) \<Rightarrow> state \<Rightarrow> pyval \<Rightarrow> state \<times> (http_error + pydict)" where
  "predict_proba py st payload =
     (case payload of
        PDict pl \<Rightarrow>
          (let got = dict_get pl ''features'';
               features = (if truthy got then got else PDict [])
           in case features of
                PDict feat \<Rightarrow>
                  (let vec = vec_from_features py feat in
                   case bindE (case model st of
                                 None \<Rightarrow> demo_proba vec
                               | Some mdl \<Rightarrow> extract_proba_from_model mdl vec) (\<lambda>proba.
                        bindE (max_by_value proba) (\<lambda>(winner_key, winner_prob).
                        case map_of label_map winner_key of
                          None \<Rightarrow> Inl KeyError
                        | Some winner_label \<Rightarrow>
                            Inr [(''proba'', PDict (map (\<lambda>(k, v). (k, PFloat v)) proba)),
                                 (''predicted_winner'', PStr (ustr winner_key)),
                                 (''predicted_winner_label'', PStr (ustr winner_label)),
                                 (''predicted_winner_prob'', PFloat winner_prob),
                                 (''model_version'', PStr (model_version st)),
                                 (''ts'', PStr (timestamp_str py))])) of
                     Inl e \<Rightarrow> (st, Inl (Internal_Server_Error e))
                   | Inr body \<Rightarrow> (st, Inr body))
              | _ \<Rightarrow> (st, Inl (Internal_Server_Error AttributeError)))
      | _ \<Rightarrow> (st, Inl (HTTPException 400 (Message ''Invalid payload''))))"

subsection \<open>Label parser\<close>

text \<open>
  \<open>str.strip()\<close> removes the leading and trailing code points that Python counts as
  whitespace. \<open>str.lower()\<close> is written out for the letters A to Z and leaves every other
  code point as it is: the labels compared against consist of the letters a to z, digits,
  the space and Hangul syllables, and no other code point lowercases into them.
\<close>

definition py_isspace :: "nat \<Rightarrow> bool" where
  "py_isspace c \<longleftrightarrow>
     (9 \<le> c \<and> c \<le> 13) \<or> (28 \<le> c \<and> c \<le> 32) \<or> c = 133 \<or> c = 160 \<or> c = 5760 \<or>
     (8192 \<le> c \<and> c \<le> 8202) \<or> c = 8232 \<or> c = 8233 \<or> c = 8239 \<or> c = 8287 \<or> c = 12288"

definition py_strip :: "nat list \<Rightarrow> nat list" where
  "py_strip s = rev (dropWhile py_isspace (rev (dropWhile py_isspace s)))"

definition py_lower :: "nat list \<Rightarrow> nat list" where
  "py_lower s = map (\<lambda>c. if 65 \<le> c \<and> c \<le> 90 then c + 32 else c) s"

text \<open>
  The three tuples of accepted labels. The Korean labels are given by their code points:
  U+D648 U+0020 U+C2B9, U+BB34 U+C2B9 U+BD80 and U+C6D0 U+C815 U+0020 U+C2B9.
\<close>

definition home_labels :: "nat list list" where
  "home_labels = [ustr ''home'', ustr ''h'', ustr ''home win'', [54856, 32, 49849], ustr ''1'']"

definition draw_labels :: "nat list list" where
  "draw_labels = [ustr ''draw'', ustr ''d'', [47924, 49849, 48512], ustr ''x'', ustr ''0'']"

definition away_labels :: "nat list list" where
  "away_labels =
     [ustr ''away'', ustr ''a'', ustr ''away win'', [50896, 51221, 32, 49849], ustr ''2'']"

text \<open>
  \<open>int(v)\<close>: a float is truncated towards zero, an infinity raises \<open>OverflowError\<close>, NaN
  raises \<open>ValueError\<close>.
\<close>

fun py_int :: "('a env_scheme) \<Rightarrow> pyval \<Rightarrow> py_error + int" where
  "py_int py PNone = Inl TypeError"
| "py_int py (PBool b) = Inr (if b then 1 else 0)"
| "py_int py (PInt i) = Inr i"
| "py_int py (PFloat (Fin x)) = Inr (if 0 \<le> x then \<lfloor>x\<rfloor> else \<lceil>x\<rceil>)"
| "py_int py (PFloat PInf) = Inl OverflowError"
| "py_int py (PFloat NInf) = Inl OverflowError"
| "py_int py (PFloat NaN) = Inl ValueError"
| "py_int py (PStr s) = (case str_to_int py s of None \<Rightarrow> Inl ValueError | Some i \<Rightarrow> Inr i)"
| "py_int py (PList xs) = Inl TypeError"
| "py_int py (PDict d) = Inl TypeError"

text \<open>
  The label of a row, lines 372 to 392 of \<open>retrain_automated\<close>: the class, or the key of
  the rejection counter.
\<close>

definition parse_label :: "('a env_scheme) \<Rightarrow> pyval \<Rightarrow> string + int" where
  "parse_label py lab =
     (case lab of
        PStr s \<Rightarrow>
          (let l = py_lower (py_strip s)
           in if l \<in> set home_labels then Inr 0
              else if l \<in> set draw_labels then Inr 1
              else if l \<in> set away_labels then Inr 2
              else Inl ''invalid_label'')
      | _ \<Rightarrow>
          (case py_int py lab of
             Inl e \<Rightarrow> Inl ''invalid_label_type''
           | Inr y \<Rightarrow> (if y \<in> {0, 1, 2} then Inr y else Inl ''label_out_of_range'')))"

subsection \<open>Trainer\<close>

text \<open>
  The body of the loop over the rows: the vector and the class of a valid row, or the key
  of the counter that a rejected row increments.
\<close>

definition parse_row :: "('a env_scheme) \<Rightarrow> pyval \<Rightarrow> string + pyfloat list \<times> int" where
  "parse_row py row =
     (case row of
        PDict r \<Rightarrow>
          (let feat = normalize_field r (field_keys ''features'');
               lab = normalize_field r (field_keys ''label'')
           in case feat of
                PDict f \<Rightarrow>
                  (let vec = vec_from_features py f
                   in case parse_label py lab of
                        Inl reason \<Rightarrow> Inl reason
                      | Inr y \<Rightarrow> Inr (vec, y))
              | _ \<Rightarrow> Inl ''no_features'')
      | _ \<Rightarrow> Inl ''not_dict'')"

text \<open>\<open>d[k] = d.get(k, 0) + 1\<close>, also what \<open>Counter\<close> does for each element.\<close>

definition bump :: "('k \<times> int) list \<Rightarrow> 'k \<Rightarrow> ('k \<times> int) list" where
  "bump d k = AList.update k ((case map_of d k of None \<Rightarrow> 0 | Some c \<Rightarrow> c) + 1) d"

text \<open>
  The loop, on \<open>X_list\<close>, \<open>y_list\<close>, \<open>valid_count\<close> and \<open>invalid_reason_counts\<close>.
\<close>

fun retrain_loop ::
  "('a env_scheme) \<Rightarrow> pyval list \<Rightarrow>
   pyfloat list list \<times> int list \<times> int \<times> (string \<times> int) list \<Rightarrow>
   pyfloat list list \<times> int list \<times> int \<times> (string \<times> int) list" where
  "retrain_loop py [] acc = acc"
| "retrain_loop py (row # rows) (X_list, y_list, valid_count, invalid_reason_counts) =
     (case parse_row py row of
        Inl reason \<Rightarrow>
          retrain_loop py rows (X_list, y_list, valid_count, bump invalid_reason_counts reason)
      | Inr (vec, y) \<Rightarrow>
          retrain_loop py rows
            (X_list @ [vec], y_list @ [y], valid_count + 1, invalid_reason_counts))"

definition Counter :: "int list \<Rightarrow> (int \<times> int) list" where
  "Counter ys = fold (\<lambda>y d. bump d y) ys []"

text \<open>\<open>min\<close> of a sequence; an empty one raises \<open>ValueError\<close>.\<close>

fun py_min :: "int list \<Rightarrow> py_error + int" where
  "py_min [] = Inl ValueError"
| "py_min (x # xs) = Inr (fold min xs x)"

text \<open>The keys of \<open>class_counts\<close> in the JSON reply.\<close>

definition class_key :: "int \<Rightarrow> string" where
  "class_key c = (if c = 0 then ''0'' else if c = 1 then ''1'' else ''2'')"

text \<open>
  \<open>POST /retrain-automated\<close>. The import of scikit-learn at the start of the handler is
  taken to succeed. \<open>fit\<close> stands for building the classifier and fitting it:
  \<open>Calibrated cv\<close> is \<open>CalibratedClassifierCV\<close> around the pipeline with \<open>cv\<close> folds,
  \<open>Plain\<close> is the pipeline alone. An exception of the fit escapes the handler before the
  module variables are assigned.
\<close>

definition retrain_automated ::
  "('a env_scheme) \<Rightarrow> state \<Rightarrow> pyval \<Rightarrow> state \<times> (http_error + pydict)" where
  "retrain_automated py st training_data =
     (case training_data of
        PList rows \<Rightarrow>
          (case retrain_loop py rows ([], [], 0, []) of
             (X_list, y_list, valid_count, invalid_reason_counts) \<Rightarrow>
               if X_list = []
               then (st, Inl (HTTPException 400 (No_valid_samples invalid_reason_counts)))
               else
                 (let counts = Counter y_list in
                  if length counts < 2
                  then (st, Inl (HTTPException 400 (Message ''Need 2+ classes'')))
                  else
                    (case py_min (map snd counts) of
                       Inl e \<Rightarrow> (st, Inl (Internal_Server_Error e))
                     | Inr min_class_count \<Rightarrow>
                         (let use_calib = (2 \<le> min_class_count \<and> 6 \<le> length y_list);
                              clf_spec = (if use_calib
                                          then Calibrated (if min_class_count = 2 then 2 else 3)
                                          else Plain);
                              mode = (if use_calib then ''calibrated'' else ''plain-logreg'')
                          in case fit py clf_spec X_list y_list of
                               Inl e \<Rightarrow> (st, Inl (Internal_Server_Error e))
                             | Inr clf \<Rightarrow>
                                 (let version = ustr ''sklr-'' @ ustr mode @ ustr ''-'' @
                                                timestamp_str py
                                  in (st\<lparr>model := Some clf, model_version := version\<rparr>,
                                      Inr [(''ok'', PBool True),
                                           (''received'', PInt (int (length X_list))),
                                           (''valid'', PInt valid_count),
                                           (''invalid'', PInt (int (length rows) - valid_count)),
                                           (''invalid_reasons'',
                                              PDict (map (\<lambda>(k, c). (k, PInt c))
                                                         invalid_reason_counts)),
                                           (''class_counts'',
                                              PDict (map (\<lambda>(k, c). (class_key k, PInt c))
                                                         counts)),
                                           (''new_model_version'', PStr version),
                                           (''saved'', PBool (save_model_ok py)),
                                           (''mode'', PStr (ustr mode))]))))))
      | _ \<Rightarrow> (st, Inl (HTTPException 400 (Message ''Training data must be array''))))"

text \<open>\<open>POST /retrain-models\<close>.\<close>

definition retrain_models ::
  "('a env_scheme) \<Rightarrow> state \<Rightarrow> pyval \<Rightarrow> state \<times> (http_error + pydict)" where
  "retrain_models py st payload =
     (let n = (case payload of PList xs \<Rightarrow> int (length xs) | _ \<Rightarrow> 1)
      in (st, Inr [(''ok'', PBool True), (''received'', PInt n),
                   (''ts'', PStr (timestamp_str py))]))"

subsection \<open>Pattern tables\<close>

text \<open>
  The handlers log the first three patterns after storing the table. The f-string calls
  \<open>get\<close> on the pattern's data, which only a dictionary has, and formats the rate with
  \<open>.1%\<close>, which only a number accepts. The result is the exception raised, if any.
\<close>

fun format_percent :: "pyval \<Rightarrow> py_error option" where
  "format_percent PNone = Some TypeError"
| "format_percent (PBool b) = None"
| "format_percent (PInt i) = (if DBL_MAX < \<bar>real_of_int i\<bar> then Some OverflowError else None)"
| "format_percent (PFloat x) = None"
| "format_percent (PStr s) = Some ValueError"
| "format_percent (PList xs) = Some TypeError"
| "format_percent (PDict d) = Some TypeError"

fun log_pattern :: "string \<Rightarrow> pyval \<Rightarrow> py_error option" where
  "log_pattern rate_key (PDict d) =
     format_percent (case map_of d rate_key of None \<Rightarrow> PInt 0 | Some v \<Rightarrow> v)"
| "log_pattern rate_key pattern_data = Some AttributeError"

fun log_first :: "string \<Rightarrow> (string \<times> pyval) list \<Rightarrow> py_error option" where
  "log_first rate_key [] = None"
| "log_first rate_key ((pattern_name, pattern_data) # items) =
     (case log_pattern rate_key pattern_data of
        Some e \<Rightarrow> Some e
      | None \<Rightarrow> log_first rate_key items)"

text \<open>
  \<open>POST /sync-patterns-db\<close>. The framework passes a dictionary, as the handler
  declares.
\<close>

definition sync_patterns_db ::
  "('a env_scheme) \<Rightarrow> state \<Rightarrow> pydict \<Rightarrow> state \<times> (http_error + pydict)" where
  "sync_patterns_db py st data =
     (case normalize_field data (field_keys ''warningRules'') of
        PNone \<Rightarrow>
          (st, Inl (HTTPException 400 (Message ''Missing warningRules in request body'')))
      | PDict warning_rules \<Rightarrow>
          if length warning_rules = 0
          then (st, Inr [(''ok'', PBool True),
                         (''warning'', PStr (ustr ''Empty warningRules'')),
                         (''stored_patterns'', PInt 0)])
          else
            (let st' = st\<lparr>patterns_db := warning_rules\<rparr>
             in case log_first ''missRate'' (take 3 warning_rules) of
                  Some e \<Rightarrow> (st', Inl (Internal_Server_Error e))
                | None \<Rightarrow>
                    (st', Inr [(''ok'', PBool True),
                               (''stored_patterns'', PInt (int (length (patterns_db st')))),
                               (''timestamp'', PStr (timestamp_str py))]))
      | _ \<Rightarrow> (st, Inl (HTTPException 400 (Message ''warningRules must be a dictionary''))))"

text \<open>\<open>POST /sync-success-db\<close>.\<close>

definition sync_success_db ::
  "('a env_scheme) \<Rightarrow> state \<Rightarrow> pydict \<Rightarrow> state \<times> (http_error + pydict)" where
  "sync_success_db py st data =
     (case normalize_field data (field_keys ''successRules'') of
        PNone \<Rightarrow>
          (st, Inl (HTTPException 400 (Message ''Missing successRules in request body'')))
      | PDict success_rules \<Rightarrow>
          if length success_rules = 0
          then (st, Inr [(''ok'', PBool True),
                         (''warning'', PStr (ustr ''Empty successRules'')),
                         (''stored_patterns'', PInt 0)])
          else
            (let st' = st\<lparr>success_db := success_rules\<rparr>
             in case log_first ''successRate'' (take 3 success_rules) of
                  Some e \<Rightarrow> (st', Inl (Internal_Server_Error e))
                | None \<Rightarrow>
                    (st', Inr [(''ok'', PBool True),
                               (''stored_patterns'', PInt (int (length (success_db st')))),
                               (''timestamp'', PStr (timestamp_str py))]))
      | _ \<Rightarrow> (st, Inl (HTTPException 400 (Message ''successRules must be a dictionary''))))"

section \<open>pattern\_sync\_server.py\<close>

text \<open>\<open>len(v)\<close> and \<open>v[i]\<close> for an integer \<open>i\<close>, on a decoded JSON value.\<close>

fun py_len :: "pyval \<Rightarrow> py_error + nat" where
  "py_len (PStr s) = Inr (length s)"
| "py_len (PList xs) = Inr (length xs)"
| "py_len (PDict d) = Inr (length d)"
| "py_len v = Inl TypeError"

text \<open>
  A negative index counts from the end. The keys of a decoded JSON object are strings, so
  an integer is never one of them.
\<close>

definition index_of :: "nat \<Rightarrow> int \<Rightarrow> py_error + nat" where
  "index_of n i =
     (let j = (if i < 0 then i + int n else i)
      in if 0 \<le> j \<and> j < int n then Inr (nat j) else Inl IndexError)"

fun py_getitem :: "pyval \<Rightarrow> int \<Rightarrow> py_error + pyval" where
  "py_getitem (PList xs) i = bindE (index_of (length xs) i) (\<lambda>j. Inr (xs ! j))"
| "py_getitem (PStr s) i = bindE (index_of (length s) i) (\<lambda>j. Inr (PStr [s ! j]))"
| "py_getitem (PDict d) i = Inl KeyError"
| "py_getitem v i = Inl TypeError"

text \<open>
  The three replies of \<open>GET /api/patterns/<pattern_id>\<close>: the pattern with
  \<open>success: true\<close>, the 404 reply of the \<open>else\<close> branch, and the 500 reply of the
  \<open>except\<close> clause, which quotes the exception.
\<close>

datatype pattern_reply = Pattern_found pyval | Pattern_not_found | Pattern_failed py_error

fun reply_status :: "pattern_reply \<Rightarrow> nat" where
  "reply_status (Pattern_found p) = 200"
| "reply_status Pattern_not_found = 404"
| "reply_status (Pattern_failed e) = 500"

text \<open>
  \<open>get_pattern(pattern_id)\<close>. \<open>loaded\<close> is what \<open>load_patterns()\<close> returns or raises;
  \<open>pattern_id\<close> is the segment of the URL, a \<open>str\<close>.
\<close>

definition get_pattern :: "('a env_scheme) \<Rightarrow> py_error + pyval \<Rightarrow> nat list \<Rightarrow> pattern_reply" where
  "get_pattern py loaded pattern_id =
     (case bindE loaded (\<lambda>patterns.
           bindE (py_int py (PStr pattern_id)) (\<lambda>i.
           bindE (py_len patterns) (\<lambda>n.
           if i < int n
           then bindE (py_int py (PStr pattern_id)) (\<lambda>i'.
                bindE (py_getitem patterns i') (\<lambda>p. Inr (Pattern_found p)))
           else Inr Pattern_not_found))) of
        Inl e \<Rightarrow> Pattern_failed e
      | Inr reply \<Rightarrow> reply)"

section \<open>Views of a batch\<close>

text \<open>
  The rows of a batch that the loop accepts, with their vectors and classes, and the
  reasons of the rows it rejects, both in the order of the batch. \<open>counter_get\<close> reads a
  counter as \<open>d.get(k, 0)\<close> does.
\<close>

definition accepted_rows :: "('a env_scheme) \<Rightarrow> pyval list \<Rightarrow> (pyfloat list \<times> int) list" where
  "accepted_rows py rows =
     concat (map (\<lambda>row. case parse_row py row of Inl reason \<Rightarrow> [] | Inr vy \<Rightarrow> [vy]) rows)"

definition rejected_reasons :: "('a env_scheme) \<Rightarrow> pyval list \<Rightarrow> string list" where
  "rejected_reasons py rows =
     concat (map (\<lambda>row. case parse_row py row of Inl reason \<Rightarrow> [reason] | Inr vy \<Rightarrow> []) rows)"

definition counter_get :: "('k \<times> int) list \<Rightarrow> 'k \<Rightarrow> int" where
  "counter_get d k = (case map_of d k of None \<Rightarrow> 0 | Some c \<Rightarrow> c)"

text \<open>
  The number of samples of the least frequent class among the classes that occur in
  \<open>ys\<close>.
\<close>

definition minority_count :: "int list \<Rightarrow> nat" where
  "minority_count ys = Min ((\<lambda>c. count_list ys c) ` set ys)"

section \<open>Views of an estimator's answer\<close>

text \<open>
  The probability that a list of pairs of a class and a probability gives to the class
  \<open>c\<close>: the probability paired with the last occurrence of \<open>c\<close>, and \<open>d\<close> when \<open>c\<close> does
  not occur. \<open>class_proba\<close> is that probability for the classes and the probabilities of
  an estimator, paired in order, with \<open>0.0\<close> for a class that does not occur.
\<close>

definition last_for :: "(int \<times> real) list \<Rightarrow> int \<Rightarrow> real \<Rightarrow> real" where
  "last_for zs c d =
     (case filter (\<lambda>kq. fst kq = c) zs of
        [] \<Rightarrow> d
      | kq # kqs \<Rightarrow> snd (last (kq # kqs)))"

definition class_proba :: "int list \<Rightarrow> real list \<Rightarrow> int \<Rightarrow> real" where
  "class_proba cls ps c = last_for (zip cls ps) c 0"

section \<open>An environment for the examples\<close>

text \<open>
  A small instance of the outside world: \<open>int\<close> reads an optional minus sign and decimal
  digits, \<open>float\<close> reads the same strings, the clock shows a fixed time, saving succeeds
  and fitting returns an estimator that answers every vector with fixed probabilities.
\<close>

definition digits_value :: "nat list \<Rightarrow> int option" where
  "digits_value ds =
     (if ds \<noteq> [] \<and> list_all (\<lambda>c. 48 \<le> c \<and> c \<le> 57) ds
      then Some (fold (\<lambda>c n. 10 * n + (int c - 48)) ds 0) else None)"

fun example_str_to_int :: "nat list \<Rightarrow> int option" where
  "example_str_to_int [] = None"
| "example_str_to_int (c # cs) =
     (if c = 45 then map_option uminus (digits_value cs) else digits_value (c # cs))"

definition example_estimator :: estimator where
  "example_estimator =
     \<lparr>predict_proba_row = (\<lambda>vec. Inr [Fin 0.5, Fin 0.25, Fin 0.25]),
      classes = Some [0, 1, 2],
      base_estimator_classes = None\<rparr>"

text \<open>An estimator with a fourth class, which \<open>CLASS_TO_KEY\<close> does not know.\<close>

definition example_estimator_four :: estimator where
  "example_estimator_four =
     \<lparr>predict_proba_row = (\<lambda>vec. Inr [Fin 0.2, Fin 0.1, Fin 0.1, Fin 0.6]),
      classes = Some [0, 1, 2, 3],
      base_estimator_classes = None\<rparr>"

definition example_env :: env where
  "example_env =
     \<lparr>str_to_float = (\<lambda>s. map_option (\<lambda>i. Fin (real_of_int i)) (example_str_to_int s)),
      str_to_int = example_str_to_int,
      timestamp_str = ustr ''20240101_120000'',
      save_model_ok = True,
      fit = (\<lambda>spec X y. Inr example_estimator)\<rparr>"

definition example_state :: state where
  "example_state =
     \<lparr>model = None, model_version = ustr ''demo-1.0'',
      patterns_db = [(''p1'', PDict [(''total'', PInt 3), (''missRate'', PFloat (Fin 0.5))])],
      success_db = []\<rparr>"

section \<open>Properties\<close>

subsection \<open>Vectorizer\<close>

lemma feq_refl: "feq x x \<longleftrightarrow> x \<noteq> NaN"
  by (cases x) simp_all

lemma length_FEATURE_KEYS: "length FEATURE_KEYS = 12"
  by (simp add: FEATURE_KEYS_def)

lemma length_vec_from_features: "length (vec_from_features py feat) = 12"
  by (simp add: vec_from_features_def length_FEATURE_KEYS)

lemma vec_from_features_nth:
  "i < 12 \<Longrightarrow>
   vec_from_features py feat ! i = safe_num py (dict_get feat (FEATURE_KEYS ! i)) (Fin 0)"
  by (simp add: vec_from_features_def length_FEATURE_KEYS)

lemma ustr_simps: "ustr [] = []" "ustr (c # cs) = of_char c # ustr cs"
  by (simp_all add: ustr_def)

text \<open>
  Claim C5. For every feature mapping, the vector has exactly 12 entries, in the order of
  \<open>FEATURE_KEYS\<close>. The entry of a name that is missing from the mapping, whose value
  \<open>float\<close> does not convert, or whose value converts to NaN, is \<open>0.0\<close>; every other entry is
  what \<open>float\<close> makes of the mapped value.
\<close>

theorem vec_from_features_fills:
  "length (vec_from_features py feat) = 12 \<and>
   (\<forall>i < 12.
      (map_of feat (FEATURE_KEYS ! i) = None \<longrightarrow> vec_from_features py feat ! i = Fin 0) \<and>
      (\<forall>v. map_of feat (FEATURE_KEYS ! i) = Some v \<longrightarrow>
         (\<forall>e. py_float py v = Inl e \<longrightarrow> vec_from_features py feat ! i = Fin 0) \<and>
         (py_float py v = Inr NaN \<longrightarrow> vec_from_features py feat ! i = Fin 0) \<and>
         (\<forall>x. py_float py v = Inr x \<and> x \<noteq> NaN \<longrightarrow> vec_from_features py feat ! i = x)))"
  by (simp add: length_vec_from_features vec_from_features_nth safe_num_def dict_get_def
      feq_refl)

theorem vec_from_features_fills_witness:
  "vec_from_features example_env
     [(''ppgDiff'', PStr (ustr ''abc'')), (''eloDiff'', PInt 50), (''homeOsl'', PFloat NaN),
      (''awayOsl'', PStr (ustr ''-3''))] ! 0 = Fin 50 \<and>
   vec_from_features example_env
     [(''ppgDiff'', PStr (ustr ''abc'')), (''eloDiff'', PInt 50), (''homeOsl'', PFloat NaN),
      (''awayOsl'', PStr (ustr ''-3''))] ! 1 = Fin 0 \<and>
   vec_from_features example_env
     [(''ppgDiff'', PStr (ustr ''abc'')), (''eloDiff'', PInt 50), (''homeOsl'', PFloat NaN),
      (''awayOsl'', PStr (ustr ''-3''))] ! 2 = Fin 0 \<and>
   vec_from_features example_env
     [(''ppgDiff'', PStr (ustr ''abc'')), (''eloDiff'', PInt 50), (''homeOsl'', PFloat NaN),
      (''awayOsl'', PStr (ustr ''-3''))] ! 3 = Fin 0"
proof -
  let ?feat = "[(''ppgDiff'', PStr (ustr ''abc'')), (''eloDiff'', PInt 50),
                (''homeOsl'', PFloat NaN), (''awayOsl'', PStr (ustr ''-3''))]"
  note at = vec_from_features_fills [of example_env ?feat, THEN conjunct2, rule_format]
  have c0: "vec_from_features example_env ?feat ! 0 = Fin 50"
    using at [of 0, THEN conjunct2, rule_format, of "PInt 50",
              THEN conjunct2, THEN conjunct2, rule_format, of "Fin 50"]
    by (simp add: FEATURE_KEYS_def DBL_MAX_def)
  have c1: "vec_from_features example_env ?feat ! 1 = Fin 0"
    using at [of 1, THEN conjunct2, rule_format, of "PStr (ustr ''abc'')",
              THEN conjunct1, rule_format, of ValueError]
    by (simp add: FEATURE_KEYS_def example_env_def ustr_simps digits_value_def)
  have c2: "vec_from_features example_env ?feat ! 2 = Fin 0"
    using at [of 2, THEN conjunct2, rule_format, of "PFloat NaN",
              THEN conjunct2, THEN conjunct1]
    by (simp add: FEATURE_KEYS_def)
  have c3: "vec_from_features example_env ?feat ! 3 = Fin 0"
    using at [of 3, THEN conjunct1]
    by (simp add: FEATURE_KEYS_def)
  from c0 c1 c2 c3 show ?thesis by simp
qed

subsection \<open>Field normalizer\<close>

lemma normalize_field_skip:
  "\<forall>k \<in> set ks. map_of data k = None \<or> map_of data k = Some PNone \<Longrightarrow>
   normalize_field data (ks @ rest) = normalize_field data rest"
proof (induction ks)
  case Nil
  show ?case by simp
next
  case (Cons a ks)
  from Cons.prems have a: "map_of data a = None \<or> map_of data a = Some PNone"
    by simp
  from Cons.prems
  have "\<forall>k \<in> set ks. map_of data k = None \<or> map_of data k = Some PNone"
    by simp
  then have ih: "normalize_field data (ks @ rest) = normalize_field data rest"
    by (rule Cons.IH)
  from a show ?case
  proof
    assume "map_of data a = None"
    then show ?thesis using ih by simp
  next
    assume "map_of data a = Some PNone"
    then show ?thesis using ih by simp
  qed
qed

text \<open>
  Claim C7. For every record and every priority-ordered list of candidate keys,
  \<open>normalize_field\<close> returns the value of the first candidate key (in list order) that is
  present with a value other than \<open>None\<close>: every earlier candidate is missing or bound to
  \<open>None\<close>. When every candidate is missing or bound to \<open>None\<close>, it returns \<open>None\<close>.
\<close>

theorem normalize_field_first_present:
  "(\<forall>i v. i < length ks \<and> map_of data (ks ! i) = Some v \<and> v \<noteq> PNone \<and>
       (\<forall>j < i. map_of data (ks ! j) = None \<or> map_of data (ks ! j) = Some PNone)
       \<longrightarrow> normalize_field data ks = v) \<and>
   ((\<forall>k \<in> set ks. map_of data k = None \<or> map_of data k = Some PNone)
       \<longrightarrow> normalize_field data ks = PNone)"
proof (intro conjI allI impI)
  fix i v
  assume h: "i < length ks \<and> map_of data (ks ! i) = Some v \<and> v \<noteq> PNone \<and>
    (\<forall>j < i. map_of data (ks ! j) = None \<or> map_of data (ks ! j) = Some PNone)"
  from h have i: "i < length ks" by (rule conjunct1)
  from h have at_i: "map_of data (ks ! i) = Some v"
    by (rule conjunct2 [THEN conjunct1])
  from h have v: "v \<noteq> PNone"
    by (rule conjunct2 [THEN conjunct2, THEN conjunct1])
  from h have before:
    "\<forall>j < i. map_of data (ks ! j) = None \<or> map_of data (ks ! j) = Some PNone"
    by (rule conjunct2 [THEN conjunct2, THEN conjunct2])
  have join: "take i ks @ ks ! i # drop (Suc i) ks = ks"
    using i by (rule id_take_nth_drop [symmetric])
  have early: "\<forall>k \<in> set (take i ks). map_of data k = None \<or> map_of data k = Some PNone"
  proof
    fix k assume "k \<in> set (take i ks)"
    then obtain j where j: "j < length (take i ks)" "take i ks ! j = k"
      unfolding in_set_conv_nth by blast
    then have ji: "j < i" and kj: "ks ! j = k" by simp_all
    from before [rule_format, OF ji]
    have "map_of data (ks ! j) = None \<or> map_of data (ks ! j) = Some PNone" .
    then show "map_of data k = None \<or> map_of data k = Some PNone"
      unfolding kj .
  qed
  have here: "normalize_field data (ks ! i # drop (Suc i) ks) = v"
    by (simp add: at_i v)
  have "normalize_field data (take i ks @ ks ! i # drop (Suc i) ks) =
        normalize_field data (ks ! i # drop (Suc i) ks)"
    using early by (rule normalize_field_skip)
  then show "normalize_field data ks = v"
    unfolding join here .
next
  assume "\<forall>k \<in> set ks. map_of data k = None \<or> map_of data k = Some PNone"
  then have "normalize_field data (ks @ []) = normalize_field data []"
    by (rule normalize_field_skip)
  then show "normalize_field data ks = PNone" by simp
qed

theorem normalize_field_first_present_witness:
  "normalize_field [(''label'', PNone), (''result'', PInt 2), (''outcome'', PInt 1)]
     (field_keys ''label'') = PInt 2 \<and>
   normalize_field [(''label'', PNone)] (field_keys ''label'') = PNone"
proof -
  let ?d = "[(''label'', PNone), (''result'', PInt 2), (''outcome'', PInt 1)]"
  let ?ks = "field_keys ''label''"
  have ks: "?ks = [''finalResult'', ''finalPrediction'', ''label'', ''finalPredClean'',
                  ''prediction'', ''result'', ''outcome'']"
    by (simp add: field_keys_def FIELD_MAPPING_def)
  have lt: "\<And>j::nat. j < 5 \<longleftrightarrow> j = 0 \<or> j = 1 \<or> j = 2 \<or> j = 3 \<or> j = 4" by arith
  have a: "normalize_field ?d ?ks = PInt 2"
    using normalize_field_first_present [of ?ks ?d, THEN conjunct1, rule_format, of 5 "PInt 2"]
    by (simp add: ks lt)
  have b: "normalize_field [(''label'', PNone)] ?ks = PNone"
    using normalize_field_first_present [of ?ks "[(''label'', PNone)]", THEN conjunct2]
    by (simp add: ks)
  from a b show ?thesis by simp
qed

subsection \<open>Pattern tables\<close>

text \<open>
  Claim C6. When the normalized rules of a request to \<open>sync-patterns-db\<close> are an empty
  object, the handler answers with success and \<open>stored_patterns\<close> 0 and leaves the state,
  and so the stored table, as it was. When they are a non-empty object, the stored table
  becomes exactly that object, whatever the table held before, and nothing else changes.
  \<open>sync-success-db\<close> does the same with the success table.
\<close>

theorem sync_db_empty_keeps_nonempty_replaces:
  "(normalize_field data (field_keys ''warningRules'') = PDict [] \<longrightarrow>
      sync_patterns_db py st data =
        (st, Inr [(''ok'', PBool True), (''warning'', PStr (ustr ''Empty warningRules'')),
                  (''stored_patterns'', PInt 0)])) \<and>
   (\<forall>rules. normalize_field data (field_keys ''warningRules'') = PDict rules \<and> rules \<noteq> [] \<longrightarrow>
      fst (sync_patterns_db py st data) = st\<lparr>patterns_db := rules\<rparr>) \<and>
   (normalize_field data (field_keys ''successRules'') = PDict [] \<longrightarrow>
      sync_success_db py st data =
        (st, Inr [(''ok'', PBool True), (''warning'', PStr (ustr ''Empty successRules'')),
                  (''stored_patterns'', PInt 0)])) \<and>
   (\<forall>rules. normalize_field data (field_keys ''successRules'') = PDict rules \<and> rules \<noteq> [] \<longrightarrow>
      fst (sync_success_db py st data) = st\<lparr>success_db := rules\<rparr>)"
  by (simp add: sync_patterns_db_def sync_success_db_def Let_def split: option.splits)

theorem sync_db_empty_keeps_nonempty_replaces_witness:
  "sync_patterns_db example_env example_state [(''warningRules'', PDict [])] =
     (example_state,
      Inr [(''ok'', PBool True), (''warning'', PStr (ustr ''Empty warningRules'')),
           (''stored_patterns'', PInt 0)]) \<and>
   patterns_db (fst (sync_patterns_db example_env example_state
                       [(''patterns'', PDict [(''p2'', PDict [])])])) = [(''p2'', PDict [])] \<and>
   sync_success_db example_env example_state [(''successRules'', PDict [])] =
     (example_state,
      Inr [(''ok'', PBool True), (''warning'', PStr (ustr ''Empty successRules'')),
           (''stored_patterns'', PInt 0)]) \<and>
   success_db (fst (sync_success_db example_env example_state
                      [(''success'', PDict [(''s1'', PInt 1)])])) = [(''s1'', PInt 1)]"
proof -
  note t = sync_db_empty_keeps_nonempty_replaces
  have a: "sync_patterns_db example_env example_state [(''warningRules'', PDict [])] =
     (example_state,
      Inr [(''ok'', PBool True), (''warning'', PStr (ustr ''Empty warningRules'')),
           (''stored_patterns'', PInt 0)])"
    using t [of "[(''warningRules'', PDict [])]" example_env example_state, THEN conjunct1]
    by (simp add: field_keys_def FIELD_MAPPING_def)
  have b: "patterns_db (fst (sync_patterns_db example_env example_state
                       [(''patterns'', PDict [(''p2'', PDict [])])])) = [(''p2'', PDict [])]"
    using t [of "[(''patterns'', PDict [(''p2'', PDict [])])]" example_env example_state,
             THEN conjunct2, THEN conjunct1, rule_format, of "[(''p2'', PDict [])]"]
    by (simp add: field_keys_def FIELD_MAPPING_def)
  have c: "sync_success_db example_env example_state [(''successRules'', PDict [])] =
     (example_state,
      Inr [(''ok'', PBool True), (''warning'', PStr (ustr ''Empty successRules'')),
           (''stored_patterns'', PInt 0)])"
    using t [of "[(''successRules'', PDict [])]" example_env example_state,
             THEN conjunct2, THEN conjunct2, THEN conjunct1]
    by (simp add: field_keys_def FIELD_MAPPING_def)
  have d: "success_db (fst (sync_success_db example_env example_state
                      [(''success'', PDict [(''s1'', PInt 1)])])) = [(''s1'', PInt 1)]"
    using t [of "[(''success'', PDict [(''s1'', PInt 1)])]" example_env example_state,
             THEN conjunct2, THEN conjunct2, THEN conjunct2, rule_format,
             of "[(''s1'', PInt 1)]"]
    by (simp add: field_keys_def FIELD_MAPPING_def)
  from a b c d show ?thesis by simp
qed

subsection \<open>Legacy retraining endpoint\<close>

text \<open>
  Claim C8. For every payload, \<open>POST /retrain-models\<close> leaves the state (the stored model,
  its version and both pattern tables) as it was and answers \<open>ok\<close> with \<open>received\<close> equal
  to the length of the payload when it is a list and to 1 otherwise.
\<close>

theorem retrain_models_echo:
  "fst (retrain_models py st payload) = st \<and>
   (\<forall>xs. payload = PList xs \<longrightarrow>
      snd (retrain_models py st payload) =
        Inr [(''ok'', PBool True), (''received'', PInt (int (length xs))),
             (''ts'', PStr (timestamp_str py))]) \<and>
   ((\<forall>xs. payload \<noteq> PList xs) \<longrightarrow>
      snd (retrain_models py st payload) =
        Inr [(''ok'', PBool True), (''received'', PInt 1), (''ts'', PStr (timestamp_str py))])"
  by (cases payload) (simp_all add: retrain_models_def)

theorem retrain_models_echo_witness:
  "retrain_models example_env example_state (PList [PInt 4, PNone]) =
     (example_state,
      Inr [(''ok'', PBool True), (''received'', PInt 2),
           (''ts'', PStr (timestamp_str example_env))]) \<and>
   retrain_models example_env example_state (PDict [(''a'', PInt 4), (''b'', PInt 5)]) =
     (example_state,
      Inr [(''ok'', PBool True), (''received'', PInt 1),
           (''ts'', PStr (timestamp_str example_env))])"
proof -
  have a: "retrain_models example_env example_state (PList [PInt 4, PNone]) =
     (example_state,
      Inr [(''ok'', PBool True), (''received'', PInt 2),
           (''ts'', PStr (timestamp_str example_env))])"
    using retrain_models_echo [of example_env example_state "PList [PInt 4, PNone]"]
    by (simp add: prod_eq_iff)
  have b: "retrain_models example_env example_state (PDict [(''a'', PInt 4), (''b'', PInt 5)]) =
     (example_state,
      Inr [(''ok'', PBool True), (''received'', PInt 1),
           (''ts'', PStr (timestamp_str example_env))])"
    using retrain_models_echo
            [of example_env example_state "PDict [(''a'', PInt 4), (''b'', PInt 5)]"]
    by (simp add: prod_eq_iff)
  from a b show ?thesis by simp
qed

subsection \<open>Pattern lookup of the Flask service\<close>

text \<open>
  Claim C10. \<open>GET /api/patterns/<pattern_id>\<close> compares \<open>int(pattern_id)\<close> only with the
  length of the list. For a list of patterns and a \<open>pattern_id\<close> that reads as a negative
  integer whose absolute value is at most the length of the list, the reply is the success
  reply with the pattern at that index counted from the end, not the 404 reply. For a
  \<open>pattern_id\<close> that does not read as an integer the reply is the 500 reply of the
  exception handler.
\<close>

theorem get_pattern_negative_index:
  "(\<forall>xs i. loaded = Inr (PList xs) \<and> str_to_int py pattern_id = Some i \<and> i < 0 \<and>
       - i \<le> int (length xs) \<longrightarrow>
       get_pattern py loaded pattern_id = Pattern_found (xs ! nat (int (length xs) + i))) \<and>
   (str_to_int py pattern_id = None \<longrightarrow>
       reply_status (get_pattern py loaded pattern_id) = 500)"
  by (cases loaded)
     (auto simp: get_pattern_def bindE_def index_of_def Let_def add.commute
           split: sum.splits)

theorem get_pattern_negative_index_witness:
  "get_pattern example_env (Inr (PList [PInt 10, PInt 20, PInt 30])) (ustr ''-1'') =
     Pattern_found (PInt 30) \<and>
   reply_status (get_pattern example_env (Inr (PList [PInt 10, PInt 20, PInt 30])) (ustr ''abc''))
     = 500"
proof -
  note t = get_pattern_negative_index
    [of "Inr (PList [PInt 10, PInt 20, PInt 30])" example_env]
  have a: "get_pattern example_env (Inr (PList [PInt 10, PInt 20, PInt 30])) (ustr ''-1'') =
     Pattern_found (PInt 30)"
    using t [of "ustr ''-1''", THEN conjunct1, rule_format, of "[PInt 10, PInt 20, PInt 30]" "-1"]
    by (simp add: example_env_def ustr_simps digits_value_def)
  have b: "reply_status (get_pattern example_env (Inr (PList [PInt 10, PInt 20, PInt 30]))
             (ustr ''abc'')) = 500"
    using t [of "ustr ''abc''", THEN conjunct2]
    by (simp add: example_env_def ustr_simps digits_value_def)
  from a b show ?thesis by simp
qed

subsection \<open>Label parser\<close>

text \<open>
  Claim C9. A label that is not a string goes through \<open>int\<close>: whenever \<open>int\<close> of it is 0,
  1 or 2, the label is parsed as that class, and a row with a dictionary of features and
  that label is accepted with that class. So \<open>False\<close> is class 0, \<open>True\<close> is class 1, and
  the float 1.9 is truncated to class 1; none of them is rejected.
\<close>

theorem parse_label_coerces_non_strings:
  "(\<forall>y. (\<forall>s. lab \<noteq> PStr s) \<and> py_int py lab = Inr y \<and> y \<in> {0, 1, 2} \<longrightarrow>
        parse_label py lab = Inr y \<and>
        (\<forall>r f. normalize_field r (field_keys ''features'') = PDict f \<and>
               normalize_field r (field_keys ''label'') = lab \<longrightarrow>
               parse_row py (PDict r) = Inr (vec_from_features py f, y))) \<and>
   parse_label py (PBool False) = Inr 0 \<and>
   parse_label py (PBool True) = Inr 1 \<and>
   parse_label py (PFloat (Fin 1.9)) = Inr 1"
proof -
  have fl: "\<lfloor>1.9 :: real\<rfloor> = 1" by linarith
  have a: "parse_label py lab = Inr y"
    if "\<forall>s. lab \<noteq> PStr s" "py_int py lab = Inr y" "y \<in> {0, 1, 2}" for y
    using that by (cases lab) (simp_all add: parse_label_def)
  show ?thesis
    using a by (simp add: parse_row_def Let_def parse_label_def fl)
qed

theorem parse_label_coerces_non_strings_witness:
  "parse_label example_env (PFloat (Fin 2.5)) = Inr 2 \<and>
   parse_row example_env
     (PDict [(''features'', PDict [(''eloDiff'', PInt 50)]), (''label'', PFloat (Fin 2.5))]) =
     Inr (vec_from_features example_env [(''eloDiff'', PInt 50)], 2)"
proof -
  have fl: "\<lfloor>2.5 :: real\<rfloor> = 2" by linarith
  note t = parse_label_coerces_non_strings
    [of "PFloat (Fin 2.5)" example_env, THEN conjunct1, rule_format, of 2]
  have a: "parse_label example_env (PFloat (Fin 2.5)) = Inr 2"
    using t [THEN conjunct1] by (simp add: fl)
  have b: "parse_row example_env
     (PDict [(''features'', PDict [(''eloDiff'', PInt 50)]), (''label'', PFloat (Fin 2.5))]) =
     Inr (vec_from_features example_env [(''eloDiff'', PInt 50)], 2)"
    using t [THEN conjunct2, rule_format,
             of "[(''features'', PDict [(''eloDiff'', PInt 50)]), (''label'', PFloat (Fin 2.5))]"
                "[(''eloDiff'', PInt 50)]"]
    by (simp add: fl field_keys_def FIELD_MAPPING_def)
  from a b show ?thesis by simp
qed

subsection \<open>Batches\<close>

lemma counter_get_bump:
  "counter_get (bump d k) k' = counter_get d k' + (if k = k' then 1 else 0)"
  by (simp add: counter_get_def bump_def update_conv')

lemma counter_get_fold_bump:
  "counter_get (fold (\<lambda>r d. bump d r) rs d) k = counter_get d k + int (count_list rs k)"
  by (induction rs arbitrary: d) (simp_all add: counter_get_bump)

lemma retrain_loop_views:
  "retrain_loop py rows (X, y, v, cnt) =
     (X @ map fst (accepted_rows py rows), y @ map snd (accepted_rows py rows),
      v + int (length (accepted_rows py rows)),
      fold (\<lambda>r d. bump d r) (rejected_reasons py rows) cnt)"
proof (induction rows arbitrary: X y v cnt)
  case Nil
  show ?case by (simp add: accepted_rows_def rejected_reasons_def)
next
  case (Cons row rows)
  show ?case
  proof (cases "parse_row py row")
    case (Inl reason)
    then show ?thesis
      using Cons.IH [of X y v "bump cnt reason"]
      by (simp add: accepted_rows_def rejected_reasons_def)
  next
    case (Inr vy)
    then show ?thesis
      using Cons.IH [of "X @ [fst vy]" "y @ [snd vy]" "v + 1" cnt]
      by (cases vy) (simp add: accepted_rows_def rejected_reasons_def)
  qed
qed

lemma length_views:
  "length (accepted_rows py rows) + length (rejected_reasons py rows) = length rows"
  by (induction rows) (simp_all add: accepted_rows_def rejected_reasons_def split: sum.splits)


lemma label_tuples_disjoint:
  "set home_labels \<inter> set draw_labels = {}"
  "set home_labels \<inter> set away_labels = {}"
  "set draw_labels \<inter> set away_labels = {}"
  by (simp_all add: home_labels_def draw_labels_def away_labels_def ustr_simps)

text \<open>
  Claim C4. An integer label is valid exactly when it is 0, 1 or 2, and is then its own
  class; any other integer is rejected as \<open>label_out_of_range\<close>. A string label is
  stripped and lowercased and looked up in the three tuples of labels, which are disjoint:
  a label of the home tuple is class 0, of the draw tuple class 1, of the away tuple
  class 2, and any other string is rejected as \<open>invalid_label\<close>. So \<open>Home Win\<close> is class 0,
  the Korean label for a draw is class 1, the string \<open>2\<close> is class 2 and the integer 1 is
  class 1. A value that is not a string and that \<open>int\<close> does not convert is rejected as
  \<open>invalid_label_type\<close>. A row with a dictionary of features whose label is rejected is
  rejected for the same reason; a rejected row increments the counter of its reason by one,
  changes no other counter and adds nothing to the training set. Over a whole batch, the
  training set holds exactly the accepted rows, each counter holds the number of rows
  rejected for its reason, and the rows that are not valid are the rejected ones.
\<close>

theorem label_parser_classifies:
  "(\<forall>i. parse_label py (PInt i) =
        (if i = 0 \<or> i = 1 \<or> i = 2 then Inr i else Inl ''label_out_of_range'')) \<and>
   (\<forall>s. (py_lower (py_strip s) \<in> set home_labels \<longrightarrow> parse_label py (PStr s) = Inr 0) \<and>
        (py_lower (py_strip s) \<in> set draw_labels \<longrightarrow> parse_label py (PStr s) = Inr 1) \<and>
        (py_lower (py_strip s) \<in> set away_labels \<longrightarrow> parse_label py (PStr s) = Inr 2) \<and>
        (py_lower (py_strip s) \<notin> set home_labels \<union> set draw_labels \<union> set away_labels \<longrightarrow>
           parse_label py (PStr s) = Inl ''invalid_label'')) \<and>
   parse_label py (PStr (ustr ''Home Win'')) = Inr 0 \<and>
   parse_label py (PStr [47924, 49849, 48512]) = Inr 1 \<and>
   parse_label py (PStr (ustr ''2'')) = Inr 2 \<and>
   parse_label py (PInt 1) = Inr 1 \<and>
   (\<forall>lab e. (\<forall>s. lab \<noteq> PStr s) \<and> py_int py lab = Inl e \<longrightarrow>
        parse_label py lab = Inl ''invalid_label_type'') \<and>
   (\<forall>r f reason. normalize_field r (field_keys ''features'') = PDict f \<and>
        parse_label py (normalize_field r (field_keys ''label'')) = Inl reason \<longrightarrow>
        parse_row py (PDict r) = Inl reason) \<and>
   (\<forall>row reason X y v cnt. parse_row py row = Inl reason \<longrightarrow>
        retrain_loop py [row] (X, y, v, cnt) = (X, y, v, bump cnt reason) \<and>
        (\<forall>k. counter_get (bump cnt reason) k =
             counter_get cnt k + (if k = reason then 1 else 0))) \<and>
   (\<exists>cnt. retrain_loop py rows ([], [], 0, []) =
           (map fst (accepted_rows py rows), map snd (accepted_rows py rows),
            int (length (accepted_rows py rows)), cnt) \<and>
          (\<forall>k. counter_get cnt k = int (count_list (rejected_reasons py rows) k))) \<and>
   int (length rows) - int (length (accepted_rows py rows)) =
     int (length (rejected_reasons py rows))"
proof -
  have ints: "\<forall>i. parse_label py (PInt i) =
        (if i = 0 \<or> i = 1 \<or> i = 2 then Inr i else Inl ''label_out_of_range'')"
    by (simp add: parse_label_def)
  have strs: "\<forall>s. (py_lower (py_strip s) \<in> set home_labels \<longrightarrow> parse_label py (PStr s) = Inr 0) \<and>
        (py_lower (py_strip s) \<in> set draw_labels \<longrightarrow> parse_label py (PStr s) = Inr 1) \<and>
        (py_lower (py_strip s) \<in> set away_labels \<longrightarrow> parse_label py (PStr s) = Inr 2) \<and>
        (py_lower (py_strip s) \<notin> set home_labels \<union> set draw_labels \<union> set away_labels \<longrightarrow>
           parse_label py (PStr s) = Inl ''invalid_label'')"
    using label_tuples_disjoint by (auto simp: parse_label_def Let_def)
  have ex1: "parse_label py (PStr (ustr ''Home Win'')) = Inr 0"
    by (simp add: parse_label_def py_lower_def py_strip_def ustr_simps py_isspace_def
        home_labels_def)
  have ex2: "parse_label py (PStr [47924, 49849, 48512]) = Inr 1"
    by (simp add: parse_label_def py_lower_def py_strip_def ustr_simps py_isspace_def
        home_labels_def draw_labels_def)
  have ex3: "parse_label py (PStr (ustr ''2'')) = Inr 2"
    by (simp add: parse_label_def py_lower_def py_strip_def ustr_simps py_isspace_def
        home_labels_def draw_labels_def away_labels_def)
  have ex4: "parse_label py (PInt 1) = Inr 1"
    by (simp add: parse_label_def)
  have types: "\<forall>lab e. (\<forall>s. lab \<noteq> PStr s) \<and> py_int py lab = Inl e \<longrightarrow>
        parse_label py lab = Inl ''invalid_label_type''"
  proof (intro allI impI)
    fix lab e
    assume "(\<forall>s. lab \<noteq> PStr s) \<and> py_int py lab = Inl e"
    then show "parse_label py lab = Inl ''invalid_label_type''"
      by (cases lab) (simp_all add: parse_label_def)
  qed
  have rows: "\<forall>r f reason. normalize_field r (field_keys ''features'') = PDict f \<and>
        parse_label py (normalize_field r (field_keys ''label'')) = Inl reason \<longrightarrow>
        parse_row py (PDict r) = Inl reason"
    by (simp add: parse_row_def Let_def)
  have step: "\<forall>row reason X y v cnt. parse_row py row = Inl reason \<longrightarrow>
        retrain_loop py [row] (X, y, v, cnt) = (X, y, v, bump cnt reason) \<and>
        (\<forall>k. counter_get (bump cnt reason) k =
             counter_get cnt k + (if k = reason then 1 else 0))"
    by (simp add: counter_get_bump)
  have loop: "\<exists>cnt. retrain_loop py rows ([], [], 0, []) =
           (map fst (accepted_rows py rows), map snd (accepted_rows py rows),
            int (length (accepted_rows py rows)), cnt) \<and>
          (\<forall>k. counter_get cnt k = int (count_list (rejected_reasons py rows) k))"
    by (simp add: retrain_loop_views counter_get_fold_bump) (simp add: counter_get_def)
  have total: "int (length rows) - int (length (accepted_rows py rows)) =
     int (length (rejected_reasons py rows))"
    using length_views [of py rows] by simp
  from ints strs ex1 ex2 ex3 ex4 types rows step loop total show ?thesis
    by (intro conjI)
qed


theorem label_parser_classifies_witness:
  "\<exists>cnt. retrain_loop example_env
            [PDict [(''features'', PDict []), (''label'', PStr (ustr '' Draw ''))],
             PDict [(''features'', PDict []), (''label'', PStr (ustr ''win''))],
             PDict [(''features'', PDict []), (''result'', PInt 5)],
             PDict [(''features'', PDict [])]] ([], [], 0, []) =
           ([vec_from_features example_env []], [1], 1, cnt) \<and>
         counter_get cnt ''invalid_label'' = 1 \<and>
         counter_get cnt ''label_out_of_range'' = 1 \<and>
         counter_get cnt ''invalid_label_type'' = 1 \<and>
         counter_get cnt ''no_features'' = 0"
proof -
  let ?r1 = "PDict [(''features'', PDict []), (''label'', PStr (ustr '' Draw ''))]"
  let ?r2 = "PDict [(''features'', PDict []), (''label'', PStr (ustr ''win''))]"
  let ?r3 = "PDict [(''features'', PDict []), (''result'', PInt 5)]"
  let ?r4 = "PDict [(''features'', PDict [])]"
  let ?rows = "[?r1, ?r2, ?r3, ?r4]"
  note defs = parse_row_def parse_label_def field_keys_def FIELD_MAPPING_def Let_def
    py_lower_def py_strip_def py_isspace_def ustr_simps
    home_labels_def draw_labels_def away_labels_def
  have p1: "parse_row example_env ?r1 = Inr (vec_from_features example_env [], 1)"
    by (simp add: defs)
  have p2: "parse_row example_env ?r2 = Inl ''invalid_label''"
    by (simp add: defs)
  have p3: "parse_row example_env ?r3 = Inl ''label_out_of_range''"
    by (simp add: defs)
  have p4: "parse_row example_env ?r4 = Inl ''invalid_label_type''"
    by (simp add: defs)
  have acc: "accepted_rows example_env ?rows = [(vec_from_features example_env [], 1)]"
    by (simp add: accepted_rows_def p1 p2 p3 p4)
  have rej: "rejected_reasons example_env ?rows =
      [''invalid_label'', ''label_out_of_range'', ''invalid_label_type'']"
    by (simp add: rejected_reasons_def p1 p2 p3 p4)
  from label_parser_classifies [of example_env ?rows]
  have "\<exists>cnt. retrain_loop example_env ?rows ([], [], 0, []) =
           (map fst (accepted_rows example_env ?rows), map snd (accepted_rows example_env ?rows),
            int (length (accepted_rows example_env ?rows)), cnt) \<and>
          (\<forall>k. counter_get cnt k = int (count_list (rejected_reasons example_env ?rows) k))"
    by (elim conjE)
  then obtain cnt where
    l: "retrain_loop example_env ?rows ([], [], 0, []) =
           (map fst (accepted_rows example_env ?rows), map snd (accepted_rows example_env ?rows),
            int (length (accepted_rows example_env ?rows)), cnt)" and
    c: "\<And>k. counter_get cnt k = int (count_list (rejected_reasons example_env ?rows) k)"
    by blast
  have "retrain_loop example_env ?rows ([], [], 0, []) =
           ([vec_from_features example_env []], [1], 1, cnt)"
    using l unfolding acc by simp
  moreover have "counter_get cnt ''invalid_label'' = 1"
    "counter_get cnt ''label_out_of_range'' = 1"
    "counter_get cnt ''invalid_label_type'' = 1"
    "counter_get cnt ''no_features'' = 0"
    unfolding c rej by simp_all
  ultimately show ?thesis by blast
qed

subsection \<open>Trainer\<close>

lemma bump_keys: "fst ` set (bump d k) = insert k (fst ` set d)"
  by (simp add: bump_def dom_update)

lemma bump_distinct: "distinct (map fst d) \<Longrightarrow> distinct (map fst (bump d k))"
  by (simp add: bump_def distinct_update)

lemma fold_bump_keys:
  "fst ` set (fold (\<lambda>y d. bump d y) ys d) = fst ` set d \<union> set ys"
  by (induction ys arbitrary: d) (auto simp: bump_keys)

lemma fold_bump_distinct:
  "distinct (map fst d) \<Longrightarrow> distinct (map fst (fold (\<lambda>y d. bump d y) ys d))"
  by (induction ys arbitrary: d) (simp_all add: bump_distinct)

lemma Counter_keys: "fst ` set (Counter ys) = set ys"
  by (simp add: Counter_def fold_bump_keys)

lemma Counter_distinct: "distinct (map fst (Counter ys))"
  by (simp add: Counter_def fold_bump_distinct)

lemma Counter_get: "counter_get (Counter ys) c = int (count_list ys c)"
  by (simp add: Counter_def counter_get_fold_bump) (simp add: counter_get_def)

lemma length_Counter: "length (Counter ys) = card (set ys)"
proof -
  have "length (Counter ys) = length (map fst (Counter ys))" by simp
  also have "\<dots> = card (set (map fst (Counter ys)))"
    using Counter_distinct by (simp only: distinct_card)
  also have "\<dots> = card (set ys)" by (simp add: Counter_keys)
  finally show ?thesis .
qed

lemma Counter_values: "set (map snd (Counter ys)) = (\<lambda>c. int (count_list ys c)) ` set ys"
proof (intro set_eqI iffI)
  fix v assume "v \<in> set (map snd (Counter ys))"
  then obtain k where kv: "(k, v) \<in> set (Counter ys)" by auto
  then have "map_of (Counter ys) k = Some v"
    using Counter_distinct by simp
  then have "counter_get (Counter ys) k = v" by (simp add: counter_get_def)
  then have v: "v = int (count_list ys k)" by (simp add: Counter_get)
  from kv have "k \<in> fst ` set (Counter ys)" by force
  then have "k \<in> set ys" by (simp add: Counter_keys)
  with v show "v \<in> (\<lambda>c. int (count_list ys c)) ` set ys" by blast
next
  fix v assume "v \<in> (\<lambda>c. int (count_list ys c)) ` set ys"
  then obtain k where k: "k \<in> set ys" and v: "v = int (count_list ys k)" by blast
  from k have "k \<in> fst ` set (Counter ys)" by (simp add: Counter_keys)
  then obtain w where kw: "(k, w) \<in> set (Counter ys)" by force
  then have "map_of (Counter ys) k = Some w"
    using Counter_distinct by simp
  then have "counter_get (Counter ys) k = w" by (simp add: counter_get_def)
  then have "w = v" by (simp add: Counter_get v)
  with kw show "v \<in> set (map snd (Counter ys))" by force
qed

lemma py_min_Min: "xs \<noteq> [] \<Longrightarrow> py_min xs = Inr (Min (set xs))"
proof (cases xs)
  case Nil
  assume "xs \<noteq> []"
  with Nil show ?thesis by simp
next
  case (Cons a list)
  have "Min (set (a # list)) = fold min list a" by (rule Min.set_eq_fold)
  then show ?thesis unfolding Cons by simp
qed

lemma min_class_count: 
  assumes "ys \<noteq> []"
  shows "py_min (map snd (Counter ys)) = Inr (int (minority_count ys))"
proof -
  from assms have ne: "set ys \<noteq> {}" by simp
  then have "Counter ys \<noteq> []" using Counter_keys [of ys] by auto
  then have "py_min (map snd (Counter ys)) = Inr (Min (set (map snd (Counter ys))))"
    by (simp add: py_min_Min)
  also have "set (map snd (Counter ys)) = int ` (\<lambda>c. count_list ys c) ` set ys"
    using Counter_values [of ys] by (simp add: image_image)
  also have "Min (int ` (\<lambda>c. count_list ys c) ` set ys) = int (Min ((\<lambda>c. count_list ys c) ` set ys))"
    using ne by (intro mono_Min_commute [symmetric]) (simp_all add: mono_def)
  finally show ?thesis by (simp add: minority_count_def)
qed


lemma retrain_automated_few_classes:
  assumes "card (set (map snd (accepted_rows py rows))) < 2"
  shows "\<exists>d. retrain_automated py st (PList rows) = (st, Inl (HTTPException 400 d))"
proof (cases "accepted_rows py rows = []")
  case True
  then show ?thesis
    by (simp add: retrain_automated_def retrain_loop_views)
next
  case False
  then show ?thesis
    using assms
    by (simp add: retrain_automated_def retrain_loop_views Let_def length_Counter)
qed

lemma retrain_automated_two_classes:
  assumes "2 \<le> card (set (map snd (accepted_rows py rows)))"
  shows "retrain_automated py st (PList rows) =
     (let X_list = map fst (accepted_rows py rows);
          y_list = map snd (accepted_rows py rows);
          m = int (minority_count y_list);
          use_calib = (2 \<le> m \<and> 6 \<le> length y_list);
          clf_spec = (if use_calib then Calibrated (if m = 2 then 2 else 3) else Plain);
          mode = (if use_calib then ''calibrated'' else ''plain-logreg'')
      in case fit py clf_spec X_list y_list of
           Inl e \<Rightarrow> (st, Inl (Internal_Server_Error e))
         | Inr clf \<Rightarrow>
             (st\<lparr>model := Some clf,
                 model_version := ustr ''sklr-'' @ ustr mode @ ustr ''-'' @ timestamp_str py\<rparr>,
              Inr [(''ok'', PBool True),
                   (''received'', PInt (int (length X_list))),
                   (''valid'', PInt (int (length (accepted_rows py rows)))),
                   (''invalid'', PInt (int (length rows) - int (length (accepted_rows py rows)))),
                   (''invalid_reasons'',
                      PDict (map (\<lambda>(k, c). (k, PInt c))
                                 (fold (\<lambda>r d. bump d r) (rejected_reasons py rows) []))),
                   (''class_counts'',
                      PDict (map (\<lambda>(k, c). (class_key k, PInt c)) (Counter y_list))),
                   (''new_model_version'',
                      PStr (ustr ''sklr-'' @ ustr mode @ ustr ''-'' @ timestamp_str py)),
                   (''saved'', PBool (save_model_ok py)),
                   (''mode'', PStr (ustr mode))]))"
proof -
  from assms have ne: "map snd (accepted_rows py rows) \<noteq> []" by auto
  then have ne': "accepted_rows py rows \<noteq> []" by simp
  from assms have len: "\<not> length (Counter (map snd (accepted_rows py rows))) < 2"
    by (simp add: length_Counter)
  show ?thesis
  proof (cases "2 \<le> minority_count (map snd (accepted_rows py rows)) \<and>
                6 \<le> length (accepted_rows py rows)")
    case True
    then show ?thesis
      unfolding retrain_automated_def
      by (cases "minority_count (map snd (accepted_rows py rows)) = 2")
         (simp_all add: retrain_loop_views ne' len min_class_count [OF ne] Let_def
                   cong: sum.case_cong)
  next
    case False
    then show ?thesis
      unfolding retrain_automated_def
      by (simp add: retrain_loop_views ne' len min_class_count [OF ne] Let_def
               cong: sum.case_cong)
  qed
qed

text \<open>
  Claim C3. When the valid rows of a batch carry fewer than two distinct classes, which
  includes a batch with no valid row, \<open>retrain_automated\<close> raises an \<open>HTTPException\<close>
  with status 400 and the state, with the stored model and its version, is what it was
  before the request.
\<close>

theorem retrain_automated_needs_two_classes:
  assumes "card (set (map snd (accepted_rows py rows))) < 2"
  shows "fst (retrain_automated py st (PList rows)) = st \<and>
         (\<exists>d. snd (retrain_automated py st (PList rows)) = Inl (HTTPException 400 d))"
  using retrain_automated_few_classes [OF assms, of st] by auto

theorem retrain_automated_needs_two_classes_witness:
  "fst (retrain_automated example_env example_state
          (PList [PDict [(''features'', PDict []), (''label'', PStr (ustr ''home''))],
                  PDict [(''features'', PDict []), (''result'', PInt 0)],
                  PDict [(''label'', PInt 2)]])) = example_state \<and>
   status_code (snd (retrain_automated example_env example_state
          (PList [PDict [(''features'', PDict []), (''label'', PStr (ustr ''home''))],
                  PDict [(''features'', PDict []), (''result'', PInt 0)],
                  PDict [(''label'', PInt 2)]]))) = 400"
proof -
  let ?r1 = "PDict [(''features'', PDict []), (''label'', PStr (ustr ''home''))]"
  let ?r2 = "PDict [(''features'', PDict []), (''result'', PInt 0)]"
  let ?r3 = "PDict [(''label'', PInt 2)]"
  note defs = parse_row_def parse_label_def field_keys_def FIELD_MAPPING_def Let_def
    py_lower_def py_strip_def py_isspace_def ustr_simps
    home_labels_def draw_labels_def away_labels_def
  have p1: "parse_row example_env ?r1 = Inr (vec_from_features example_env [], 0)"
    by (simp add: defs)
  have p2: "parse_row example_env ?r2 = Inr (vec_from_features example_env [], 0)"
    by (simp add: defs)
  have p3: "parse_row example_env ?r3 = Inl ''no_features''"
    by (simp add: defs)
  have ys: "map snd (accepted_rows example_env [?r1, ?r2, ?r3]) = [0, 0]"
    by (simp add: accepted_rows_def p1 p2 p3)
  have few: "card (set (map snd (accepted_rows example_env [?r1, ?r2, ?r3]))) < 2"
    unfolding ys by simp
  from retrain_automated_needs_two_classes [OF few, of example_state]
  show ?thesis by auto
qed

text \<open>
  Claim C2. For a batch whose valid rows carry at least two distinct classes, the
  classifier that \<open>retrain_automated\<close> fits is the calibrated one exactly when the least
  frequent class has at least 2 samples and there are at least 6 valid samples; its number
  of folds is then 2 when the least frequent class has exactly 2 samples and 3 otherwise.
  In every other case it is the plain pipeline. If the fit raises, the state is unchanged;
  otherwise the fitted classifier is stored, and the new version and the \<open>mode\<close> of the
  reply name the choice.
\<close>

theorem retrain_automated_calibration_choice:
  fixes py :: "'a env_scheme" and rows :: "pyval list"
  defines "ys \<equiv> map snd (accepted_rows py rows)"
      and "X \<equiv> map fst (accepted_rows py rows)"
  assumes "2 \<le> card (set ys)"
  shows "\<exists>clf_spec.
     (clf_spec = Plain \<longleftrightarrow> \<not> (2 \<le> minority_count ys \<and> 6 \<le> length ys)) \<and>
     (\<forall>cv. clf_spec = Calibrated cv \<longleftrightarrow>
            2 \<le> minority_count ys \<and> 6 \<le> length ys \<and>
            cv = (if minority_count ys = 2 then 2 else 3)) \<and>
     (\<forall>e. fit py clf_spec X ys = Inl e \<longrightarrow>
          retrain_automated py st (PList rows) = (st, Inl (Internal_Server_Error e))) \<and>
     (\<forall>clf. fit py clf_spec X ys = Inr clf \<longrightarrow>
          fst (retrain_automated py st (PList rows)) =
            st\<lparr>model := Some clf,
               model_version :=
                 ustr ''sklr-'' @
                 ustr (if clf_spec = Plain then ''plain-logreg'' else ''calibrated'') @
                 ustr ''-'' @ timestamp_str py\<rparr> \<and>
          (\<exists>body. snd (retrain_automated py st (PList rows)) = Inr body \<and>
             dict_get body ''mode'' =
               PStr (ustr (if clf_spec = Plain then ''plain-logreg'' else ''calibrated''))))"
proof -
  define m where "m = minority_count ys"
  define clf_spec where
    "clf_spec = (if 2 \<le> m \<and> 6 \<le> length ys
                 then Calibrated (if m = 2 then 2 else 3) else Plain)"
  from assms(3) have two: "2 \<le> card (set (map snd (accepted_rows py rows)))"
    by (simp add: ys_def)
  have eq: "retrain_automated py st (PList rows) =
     (case fit py clf_spec X ys of
        Inl e \<Rightarrow> (st, Inl (Internal_Server_Error e))
      | Inr clf \<Rightarrow>
          (st\<lparr>model := Some clf,
              model_version :=
                ustr ''sklr-'' @
                ustr (if clf_spec = Plain then ''plain-logreg'' else ''calibrated'') @
                ustr ''-'' @ timestamp_str py\<rparr>,
           Inr [(''ok'', PBool True),
                (''received'', PInt (int (length X))),
                (''valid'', PInt (int (length (accepted_rows py rows)))),
                (''invalid'', PInt (int (length rows) - int (length (accepted_rows py rows)))),
                (''invalid_reasons'',
                   PDict (map (\<lambda>(k, c). (k, PInt c))
                              (fold (\<lambda>r d. bump d r) (rejected_reasons py rows) []))),
                (''class_counts'',
                   PDict (map (\<lambda>(k, c). (class_key k, PInt c)) (Counter ys))),
                (''new_model_version'',
                   PStr (ustr ''sklr-'' @
                         ustr (if clf_spec = Plain then ''plain-logreg'' else ''calibrated'') @
                         ustr ''-'' @ timestamp_str py)),
                (''saved'', PBool (save_model_ok py)),
                (''mode'',
                   PStr (ustr (if clf_spec = Plain then ''plain-logreg''
                               else ''calibrated'')))]))"
    unfolding retrain_automated_two_classes [OF two, of st]
    by (simp add: Let_def clf_spec_def m_def ys_def X_def cong: sum.case_cong)
  have a: "clf_spec = Plain \<longleftrightarrow> \<not> (2 \<le> minority_count ys \<and> 6 \<le> length ys)"
    by (simp add: clf_spec_def m_def)
  have b: "\<forall>cv. clf_spec = Calibrated cv \<longleftrightarrow>
            2 \<le> minority_count ys \<and> 6 \<le> length ys \<and>
            cv = (if minority_count ys = 2 then 2 else 3)"
    by (auto simp: clf_spec_def m_def)
  have c: "\<forall>e. fit py clf_spec X ys = Inl e \<longrightarrow>
          retrain_automated py st (PList rows) = (st, Inl (Internal_Server_Error e))"
    by (simp add: eq)
  have d: "\<forall>clf. fit py clf_spec X ys = Inr clf \<longrightarrow>
          fst (retrain_automated py st (PList rows)) =
            st\<lparr>model := Some clf,
               model_version :=
                 ustr ''sklr-'' @
                 ustr (if clf_spec = Plain then ''plain-logreg'' else ''calibrated'') @
                 ustr ''-'' @ timestamp_str py\<rparr> \<and>
          (\<exists>body. snd (retrain_automated py st (PList rows)) = Inr body \<and>
             dict_get body ''mode'' =
               PStr (ustr (if clf_spec = Plain then ''plain-logreg'' else ''calibrated'')))"
    by (simp add: eq dict_get_def)
  from a b c d show ?thesis by blast
qed

theorem retrain_automated_calibration_choice_witness:
  "model_version (fst (retrain_automated example_env example_state
      (PList [PDict [(''features'', PDict []), (''label'', PInt 0)],
              PDict [(''features'', PDict []), (''label'', PInt 1)],
              PDict [(''features'', PDict []), (''label'', PInt 0)],
              PDict [(''features'', PDict []), (''label'', PInt 1)],
              PDict [(''features'', PDict []), (''label'', PInt 0)],
              PDict [(''features'', PDict []), (''label'', PInt 0)]]))) =
     ustr ''sklr-calibrated-20240101_120000'' \<and>
   model_version (fst (retrain_automated example_env example_state
      (PList [PDict [(''features'', PDict []), (''label'', PInt 0)],
              PDict [(''features'', PDict []), (''label'', PInt 1)]]))) =
     ustr ''sklr-plain-logreg-20240101_120000''"
proof -
  let ?r0 = "PDict [(''features'', PDict []), (''label'', PInt 0)]"
  let ?r1 = "PDict [(''features'', PDict []), (''label'', PInt 1)]"
  let ?six = "[?r0, ?r1, ?r0, ?r1, ?r0, ?r0]"
  let ?two = "[?r0, ?r1]"
  note defs = parse_row_def parse_label_def field_keys_def FIELD_MAPPING_def Let_def
  have p0: "parse_row example_env ?r0 = Inr (vec_from_features example_env [], 0)"
    by (simp add: defs)
  have p1: "parse_row example_env ?r1 = Inr (vec_from_features example_env [], 1)"
    by (simp add: defs)
  have ys6: "map snd (accepted_rows example_env ?six) = [0, 1, 0, 1, 0, 0]"
    by (simp add: accepted_rows_def p0 p1)
  have ys2: "map snd (accepted_rows example_env ?two) = [0, 1]"
    by (simp add: accepted_rows_def p0 p1)
  have m6: "minority_count [0, 1, 0, 1, 0, 0] = 2"
    by (simp add: minority_count_def)
  have m2: "minority_count [0, 1] = 1"
    by (simp add: minority_count_def)
  have fit: "\<And>spec X y. fit example_env spec X y = Inr example_estimator"
    by (simp add: example_env_def)
  have ts: "timestamp_str example_env = ustr ''20240101_120000''"
    by (simp add: example_env_def)
  have set6: "set [0, 1, 0, 1, 0, 0 :: int] = {0, 1}" by auto
  have c6: "2 \<le> card (set (map snd (accepted_rows example_env ?six)))"
    unfolding ys6 set6 by simp
  have c2: "2 \<le> card (set (map snd (accepted_rows example_env ?two)))"
    unfolding ys2 by simp
  from retrain_automated_calibration_choice [OF c6, of example_state]
  obtain spec6 where
    s6: "spec6 = Plain \<longleftrightarrow> \<not> (2 \<le> minority_count (map snd (accepted_rows example_env ?six)) \<and>
           6 \<le> length (map snd (accepted_rows example_env ?six)))" and
    v6: "\<forall>clf. fit example_env spec6 (map fst (accepted_rows example_env ?six))
               (map snd (accepted_rows example_env ?six)) = Inr clf \<longrightarrow>
          fst (retrain_automated example_env example_state (PList ?six)) =
            example_state\<lparr>model := Some clf,
               model_version :=
                 ustr ''sklr-'' @
                 ustr (if spec6 = Plain then ''plain-logreg'' else ''calibrated'') @
                 ustr ''-'' @ timestamp_str example_env\<rparr> \<and>
          (\<exists>body. snd (retrain_automated example_env example_state (PList ?six)) = Inr body \<and>
             dict_get body ''mode'' =
               PStr (ustr (if spec6 = Plain then ''plain-logreg'' else ''calibrated'')))"
    by blast
  from s6 have n6: "spec6 \<noteq> Plain" unfolding ys6 m6 by simp
  have a: "model_version (fst (retrain_automated example_env example_state (PList ?six))) =
     ustr ''sklr-calibrated-20240101_120000''"
    using v6 [rule_format, OF fit] n6 by (simp add: ts ustr_def)
  from retrain_automated_calibration_choice [OF c2, of example_state]
  obtain spec2 where
    s2: "spec2 = Plain \<longleftrightarrow> \<not> (2 \<le> minority_count (map snd (accepted_rows example_env ?two)) \<and>
           6 \<le> length (map snd (accepted_rows example_env ?two)))" and
    v2: "\<forall>clf. fit example_env spec2 (map fst (accepted_rows example_env ?two))
               (map snd (accepted_rows example_env ?two)) = Inr clf \<longrightarrow>
          fst (retrain_automated example_env example_state (PList ?two)) =
            example_state\<lparr>model := Some clf,
               model_version :=
                 ustr ''sklr-'' @
                 ustr (if spec2 = Plain then ''plain-logreg'' else ''calibrated'') @
                 ustr ''-'' @ timestamp_str example_env\<rparr> \<and>
          (\<exists>body. snd (retrain_automated example_env example_state (PList ?two)) = Inr body \<and>
             dict_get body ''mode'' =
               PStr (ustr (if spec2 = Plain then ''plain-logreg'' else ''calibrated'')))"
    by blast
  from s2 have n2: "spec2 = Plain" unfolding ys2 m2 by simp
  have b: "model_version (fst (retrain_automated example_env example_state (PList ?two))) =
     ustr ''sklr-plain-logreg-20240101_120000''"
    using v2 [rule_format, OF fit] n2 by (simp add: ts ustr_def)
  from a b show ?thesis by simp
qed

subsection \<open>Predictor\<close>

lemma DBL_MAX_big: "3 ^ 600 \<le> DBL_MAX"
  by (simp add: DBL_MAX_def)

lemma exp_le_DBL_MAX: "x \<le> 600 \<Longrightarrow> exp x \<le> DBL_MAX"
proof -
  assume x: "x \<le> 600"
  have "exp x \<le> exp (600 :: real)" using x by simp
  also have "exp (600 :: real) = exp 1 ^ 600"
    using exp_of_nat_mult [of 600 "1 :: real"] by simp
  also have "\<dots> \<le> 3 ^ 600"
    using exp_le by (intro power_mono) (simp_all add: less_imp_le)
  also have "\<dots> \<le> DBL_MAX" by (rule DBL_MAX_big)
  finally show ?thesis .
qed

lemma DBL_MAX_less_exp: "2000 \<le> x \<Longrightarrow> DBL_MAX < exp x"
proof -
  assume x: "2000 \<le> x"
  have two: "(2 :: real) \<le> exp 1" using exp_ge_add_one_self [of "1 :: real"] by simp
  have "DBL_MAX < 2 ^ 2000" by (simp add: DBL_MAX_def)
  also have "(2 :: real) ^ 2000 \<le> exp 1 ^ 2000"
    using two by (intro power_mono) simp_all
  also have "\<dots> = exp (2000 :: real)"
    using exp_of_nat_mult [of 2000 "1 :: real"] by simp
  also have "\<dots> \<le> exp x" using x by simp
  finally show ?thesis .
qed

lemma softmax3:
  fixes sh sd sa :: real
  defines "s \<equiv> exp sh + exp sd + exp sa"
  shows "0 < exp sh / s \<and> 0 < exp sd / s \<and> 0 < exp sa / s \<and>
         exp sh / s + exp sd / s + exp sa / s = 1"
proof -
  have s: "0 < s" unfolding s_def by (simp add: add_pos_pos)
  have "exp sh / s + exp sd / s + exp sa / s = (exp sh + exp sd + exp sa) / s"
    by (simp add: add_divide_distrib)
  also have "\<dots> = s / s" by (simp add: s_def)
  finally have "exp sh / s + exp sd / s + exp sa / s = 1" using s by simp
  with s show ?thesis by simp
qed

lemma demo_proba_finite:
  "demo_proba [Fin eloDiff, Fin ppgDiff, Fin homeOsl, Fin drawOsl, Fin awayOsl,
               Fin poissonHomeProb, Fin avgDrawPercent, Fin upsetScoreDiff,
               Fin xgHF, Fin xgAF, Fin xgHA, Fin xgAA] =
     (let sh = 0.40 * poissonHomeProb + 0.20 * (eloDiff / 100) + 0.10 * ppgDiff +
               0.15 * homeOsl - 0.10 * (xgHA - xgHF);
          sd = 0.30 * (avgDrawPercent / 100) + 0.20 * drawOsl + 0.10 * (1 - \<bar>ppgDiff\<bar>);
          sa = 0.35 * (1 - poissonHomeProb) + 0.20 * (- eloDiff / 100) + 0.10 * (- ppgDiff) +
               0.15 * awayOsl;
          s = exp sh + exp sd + exp sa
      in if DBL_MAX < exp sh \<or> DBL_MAX < exp sd \<or> DBL_MAX < exp sa then Inl OverflowError
         else Inr [(''home'', Fin (exp sh / s)), (''draw'', Fin (exp sd / s)),
                   (''away'', Fin (exp sa / s))])"
proof -
  have pos: "\<And>a b c :: real. exp a + exp b + exp c \<noteq> 0"
    by (metis add_pos_pos exp_gt_zero less_irrefl)
  show ?thesis
    by (simp add: bindE_def fsub_def Let_def pos)
qed


lemma zip_map_Fin: "zip cs (map Fin ps) = map (\<lambda>(k, q). (k, Fin q)) (zip cs ps)"
  by (simp add: zip_map2)

lemma max_by_value_three:
  "\<exists>k v. max_by_value [(''home'', ph), (''draw'', pd), (''away'', pa)] = Inr (k, v) \<and>
         (k = ''home'' \<or> k = ''draw'' \<or> k = ''away'')"
  by simp

lemma label_map_three:
  "k = ''home'' \<or> k = ''draw'' \<or> k = ''away'' \<Longrightarrow> \<exists>l. map_of label_map k = Some l"
  by (auto simp: label_map_def)

lemma predict_proba_relays:
  assumes f: "(if truthy (dict_get pl ''features'') then dict_get pl ''features'' else PDict []) =
             PDict feat"
      and p: "(case model st of
              None \<Rightarrow> demo_proba (vec_from_features py feat)
            | Some mdl \<Rightarrow> extract_proba_from_model mdl (vec_from_features py feat)) =
             Inr [(''home'', ph), (''draw'', pd), (''away'', pa)]"
  shows "\<exists>body. predict_proba py st (PDict pl) = (st, Inr body) \<and>
           dict_get body ''proba'' =
             PDict [(''home'', PFloat ph), (''draw'', PFloat pd), (''away'', PFloat pa)]"
proof -
  from max_by_value_three [of ph pd pa] obtain k v where
    m: "max_by_value [(''home'', ph), (''draw'', pd), (''away'', pa)] = Inr (k, v)" and
    k: "k = ''home'' \<or> k = ''draw'' \<or> k = ''away''" by blast
  from label_map_three [OF k] obtain l where l: "map_of label_map k = Some l" by blast
  have "predict_proba py st (PDict pl) =
     (st, Inr [(''proba'', PDict [(''home'', PFloat ph), (''draw'', PFloat pd),
                                  (''away'', PFloat pa)]),
               (''predicted_winner'', PStr (ustr k)),
               (''predicted_winner_label'', PStr (ustr l)),
               (''predicted_winner_prob'', PFloat v),
               (''model_version'', PStr (model_version st)),
               (''ts'', PStr (timestamp_str py))])"
    unfolding predict_proba_def Let_def
    by (simp only: f p m l pyval.case bindE_def sum.case prod.case list.map option.case)
  then show ?thesis by (simp add: dict_get_def)
qed

lemma last_for_Nil: "last_for [] c d = d"
  by (simp add: last_for_def)

lemma last_for_Cons:
  "last_for (z # zs) c d = last_for zs c (if fst z = c then snd z else d)"
  by (cases "filter (\<lambda>kq. fst kq = c) zs") (simp_all add: last_for_def)

lemma last_for_absent: "c \<notin> fst ` set zs \<Longrightarrow> last_for zs c d = d"
  by (induction zs arbitrary: d) (auto simp: last_for_Nil last_for_Cons)

lemma last_for_distinct:
  "distinct (map fst zs) \<Longrightarrow> (c, q) \<in> set zs \<Longrightarrow> last_for zs c d = q"
proof (induction zs arbitrary: d)
  case Nil
  then show ?case by simp
next
  case (Cons z zs)
  show ?case
  proof (cases "(c, q) \<in> set zs")
    case True
    with Cons show ?thesis by (simp add: last_for_Cons)
  next
    case False
    with Cons.prems have z: "z = (c, q)" by simp
    with Cons.prems have "c \<notin> fst ` set zs" by simp
    then show ?thesis by (simp add: last_for_Cons z last_for_absent)
  qed
qed

lemma last_for_nonneg:
  "\<forall>(k, q) \<in> set zs. 0 \<le> q \<Longrightarrow> 0 \<le> d \<Longrightarrow> 0 \<le> last_for zs c d"
  by (induction zs arbitrary: d) (auto simp: last_for_Nil last_for_Cons)

lemma class_proba_nonneg: "\<forall>p \<in> set ps. 0 \<le> p \<Longrightarrow> 0 \<le> class_proba cls ps c"
  unfolding class_proba_def
  by (rule last_for_nonneg) (auto dest: set_zip_rightD)

lemma class_proba_absent: "c \<notin> set cls \<Longrightarrow> class_proba cls ps c = 0"
  unfolding class_proba_def
  by (rule last_for_absent) (auto dest: set_zip_leftD)

lemma class_proba_distinct:
  assumes "distinct cls" "i < length cls" "i < length ps"
  shows "class_proba cls ps (cls ! i) = ps ! i"
proof -
  have d: "distinct (map fst (zip cls ps))"
    using assms(1) by (simp add: distinct_zipI1 map_fst_zip_take)
  have m: "(cls ! i, ps ! i) \<in> set (zip cls ps)"
    using assms(2,3) by (auto simp: set_zip)
  show ?thesis
    unfolding class_proba_def by (rule last_for_distinct [OF d m])
qed

lemma fold_mapped_last:
  "fold (\<lambda>(cls, p) out.
             case map_of CLASS_TO_KEY cls of
               None \<Rightarrow> out
             | Some key \<Rightarrow> AList.update key p out)
          (map (\<lambda>(k, q). (k, Fin q)) zs)
          [(''home'', Fin a), (''draw'', Fin b), (''away'', Fin c)] =
       [(''home'', Fin (last_for zs 0 a)), (''draw'', Fin (last_for zs 1 b)),
        (''away'', Fin (last_for zs 2 c))]"
proof (induction zs arbitrary: a b c)
  case Nil
  show ?case by (simp add: last_for_Nil)
next
  case (Cons z zs)
  obtain k q where z: "z = (k, q)" by (cases z)
  consider "k = 0" | "k = 1" | "k = 2" | "k \<noteq> 0" "k \<noteq> 1" "k \<noteq> 2" by blast
  then show ?case
  proof cases
    case 1
    show ?thesis using Cons.IH [of q b c]
      by (simp add: z 1 CLASS_TO_KEY_def last_for_Cons)
  next
    case 2
    show ?thesis using Cons.IH [of a q c]
      by (simp add: z 2 CLASS_TO_KEY_def last_for_Cons)
  next
    case 3
    show ?thesis using Cons.IH [of a b q]
      by (simp add: z 3 CLASS_TO_KEY_def last_for_Cons)
  next
    case 4
    show ?thesis using Cons.IH [of a b c] 4
      by (simp add: z CLASS_TO_KEY_def last_for_Cons)
  qed
qed

lemma mapped_proba_class_proba:
  "mapped_proba cls (map Fin ps) =
     [(''home'', Fin (class_proba cls ps 0)), (''draw'', Fin (class_proba cls ps 1)),
      (''away'', Fin (class_proba cls ps 2))]"
  using fold_mapped_last [of "zip cls ps" 0 0 0]
  by (simp add: mapped_proba_def zip_map_Fin ALL_KEYS_def class_proba_def)


lemma extract_proba_values:
  assumes "predict_proba_row mdl vec = Inr (map Fin ps)"
  shows "extract_proba_from_model mdl vec =
     (let cls = model_classes mdl (map Fin ps);
          a = class_proba cls ps 0; b = class_proba cls ps 1; c = class_proba cls ps 2;
          s = a + b + c
      in Inr [(''home'', Fin (if 0 < s then a / s else 1 / 3)),
              (''draw'', Fin (if 0 < s then b / s else 1 / 3)),
              (''away'', Fin (if 0 < s then c / s else 1 / 3))])"
  by (simp add: extract_proba_from_model_def assms bindE_def mapped_proba_class_proba
                Let_def ALL_KEYS_def)

lemma normalized3:
  fixes a b c :: real
  assumes "0 \<le> a" "0 \<le> b" "0 \<le> c"
  shows "0 \<le> (if 0 < a + b + c then a / (a + b + c) else 1 / 3) \<and>
         0 \<le> (if 0 < a + b + c then b / (a + b + c) else 1 / 3) \<and>
         0 \<le> (if 0 < a + b + c then c / (a + b + c) else 1 / 3) \<and>
         (if 0 < a + b + c then a / (a + b + c) else 1 / 3) +
         (if 0 < a + b + c then b / (a + b + c) else 1 / 3) +
         (if 0 < a + b + c then c / (a + b + c) else 1 / 3) = 1"
proof (cases "0 < a + b + c")
  case True
  then have "a / (a + b + c) + b / (a + b + c) + c / (a + b + c) = 1"
    by (simp add: add_divide_distrib [symmetric])
  with True assms show ?thesis by simp
next
  case False
  then show ?thesis by simp
qed

lemma demo_proba_values:
  assumes "\<forall>x \<in> set [eloDiff, ppgDiff, homeOsl, drawOsl, awayOsl, poissonHomeProb,
                       avgDrawPercent, upsetScoreDiff, xgHF, xgAF, xgHA, xgAA]. \<bar>x\<bar> \<le> 700"
  shows "demo_proba [Fin eloDiff, Fin ppgDiff, Fin homeOsl, Fin drawOsl, Fin awayOsl,
               Fin poissonHomeProb, Fin avgDrawPercent, Fin upsetScoreDiff,
               Fin xgHF, Fin xgAF, Fin xgHA, Fin xgAA] =
     (let sh = 0.40 * poissonHomeProb + 0.20 * (eloDiff / 100) + 0.10 * ppgDiff +
               0.15 * homeOsl - 0.10 * (xgHA - xgHF);
          sd = 0.30 * (avgDrawPercent / 100) + 0.20 * drawOsl + 0.10 * (1 - \<bar>ppgDiff\<bar>);
          sa = 0.35 * (1 - poissonHomeProb) + 0.20 * (- eloDiff / 100) + 0.10 * (- ppgDiff) +
               0.15 * awayOsl;
          s = exp sh + exp sd + exp sa
      in Inr [(''home'', Fin (exp sh / s)), (''draw'', Fin (exp sd / s)),
              (''away'', Fin (exp sa / s))])"
proof -
  from assms have b: "\<bar>eloDiff\<bar> \<le> 700" "\<bar>ppgDiff\<bar> \<le> 700" "\<bar>homeOsl\<bar> \<le> 700"
    "\<bar>drawOsl\<bar> \<le> 700" "\<bar>awayOsl\<bar> \<le> 700" "\<bar>poissonHomeProb\<bar> \<le> 700"
    "\<bar>avgDrawPercent\<bar> \<le> 700" "\<bar>xgHF\<bar> \<le> 700" "\<bar>xgHA\<bar> \<le> 700"
    by simp_all
  have sh: "0.40 * poissonHomeProb + 0.20 * (eloDiff / 100) + 0.10 * ppgDiff +
            0.15 * homeOsl - 0.10 * (xgHA - xgHF) \<le> 600"
    using b by simp argo
  have sd: "0.30 * (avgDrawPercent / 100) + 0.20 * drawOsl + 0.10 * (1 - \<bar>ppgDiff\<bar>) \<le> 600"
    using b by simp argo
  have sa: "0.35 * (1 - poissonHomeProb) + 0.20 * (- eloDiff / 100) + 0.10 * (- ppgDiff) +
            0.15 * awayOsl \<le> 600"
    using b by simp argo
  show ?thesis
    unfolding demo_proba_finite Let_def
    using exp_le_DBL_MAX [OF sh] exp_le_DBL_MAX [OF sd] exp_le_DBL_MAX [OF sa]
    by simp
qed

text \<open>
  Claim C1, for features of bounded size. On the heuristic path, for 12 finite features
  that are each at most 700 in absolute value, the three probabilities are the
  exponentials of the three linear scores, each divided by the sum of the three
  exponentials; they are non-negative and sum to 1. On the model-backed path, when the
  estimator returns finite probabilities between 0 and 1, the probability of each of the
  classes 0, 1 and 2 is the one that the estimator pairs with it, \<open>0.0\<close> when the class is
  not among the estimator's classes; the three results are these probabilities divided by
  their sum when the sum is positive, and \<open>1/3\<close> each otherwise, so in particular when the
  sum is zero and when none of the estimator's classes is 0, 1 or 2; they are non-negative
  and sum to 1. The handler leaves the state as it is and returns the probabilities of
  the path in the \<open>proba\<close> field of its reply. The sums are those of exact arithmetic.
\<close>

theorem predict_proba_normalized:
  fixes py :: "'a env_scheme"
  shows
  "(\<forall>eloDiff ppgDiff homeOsl drawOsl awayOsl poissonHomeProb avgDrawPercent upsetScoreDiff
      xgHF xgAF xgHA xgAA.
      (\<forall>x \<in> set [eloDiff, ppgDiff, homeOsl, drawOsl, awayOsl, poissonHomeProb,
                   avgDrawPercent, upsetScoreDiff, xgHF, xgAF, xgHA, xgAA]. \<bar>x\<bar> \<le> 700) \<longrightarrow>
      (let sh = 0.40 * poissonHomeProb + 0.20 * (eloDiff / 100) + 0.10 * ppgDiff +
                0.15 * homeOsl - 0.10 * (xgHA - xgHF);
           sd = 0.30 * (avgDrawPercent / 100) + 0.20 * drawOsl + 0.10 * (1 - \<bar>ppgDiff\<bar>);
           sa = 0.35 * (1 - poissonHomeProb) + 0.20 * (- eloDiff / 100) +
                0.10 * (- ppgDiff) + 0.15 * awayOsl;
           s = exp sh + exp sd + exp sa;
           h = exp sh / s; d = exp sd / s; a = exp sa / s
       in demo_proba [Fin eloDiff, Fin ppgDiff, Fin homeOsl, Fin drawOsl, Fin awayOsl,
                      Fin poissonHomeProb, Fin avgDrawPercent, Fin upsetScoreDiff,
                      Fin xgHF, Fin xgAF, Fin xgHA, Fin xgAA] =
            Inr [(''home'', Fin h), (''draw'', Fin d), (''away'', Fin a)] \<and>
          0 \<le> h \<and> 0 \<le> d \<and> 0 \<le> a \<and> h + d + a = 1)) \<and>
   (\<forall>(mdl :: estimator) vec ps.
       predict_proba_row mdl vec = Inr (map Fin ps) \<and> (\<forall>p \<in> set ps. 0 \<le> p \<and> p \<le> 1) \<longrightarrow>
       (let cls = model_classes mdl (map Fin ps);
            a = class_proba cls ps 0; b = class_proba cls ps 1; c = class_proba cls ps 2;
            s = a + b + c;
            h = (if 0 < s then a / s else 1 / 3);
            d = (if 0 < s then b / s else 1 / 3);
            w = (if 0 < s then c / s else 1 / 3)
        in extract_proba_from_model mdl vec =
             Inr [(''home'', Fin h), (''draw'', Fin d), (''away'', Fin w)] \<and>
           0 \<le> h \<and> 0 \<le> d \<and> 0 \<le> w \<and> h + d + w = 1 \<and>
           (s = 0 \<longrightarrow> h = 1 / 3 \<and> d = 1 / 3 \<and> w = 1 / 3) \<and>
           ((\<forall>k \<in> set cls. k \<noteq> 0 \<and> k \<noteq> 1 \<and> k \<noteq> 2) \<longrightarrow>
              h = 1 / 3 \<and> d = 1 / 3 \<and> w = 1 / 3))) \<and>
   (\<forall>cls ps c. c \<notin> set cls \<longrightarrow> class_proba cls ps c = 0) \<and>
   (\<forall>cls ps i. distinct cls \<and> i < length cls \<and> i < length ps \<longrightarrow>
       class_proba cls ps (cls ! i) = ps ! i) \<and>
   (\<forall>pl feat ph pd pa.
       (if truthy (dict_get pl ''features'') then dict_get pl ''features'' else PDict []) =
         PDict feat \<and>
       (case model st of
          None \<Rightarrow> demo_proba (vec_from_features py feat)
        | Some mdl \<Rightarrow> extract_proba_from_model mdl (vec_from_features py feat)) =
         Inr [(''home'', ph), (''draw'', pd), (''away'', pa)] \<longrightarrow>
       (\<exists>body. predict_proba py st (PDict pl) = (st, Inr body) \<and>
          dict_get body ''proba'' =
            PDict [(''home'', PFloat ph), (''draw'', PFloat pd), (''away'', PFloat pa)]))"
proof (intro conjI allI impI)
  fix eloDiff ppgDiff homeOsl drawOsl awayOsl poissonHomeProb avgDrawPercent upsetScoreDiff
    xgHF xgAF xgHA xgAA :: real
  assume b: "\<forall>x \<in> set [eloDiff, ppgDiff, homeOsl, drawOsl, awayOsl, poissonHomeProb,
                   avgDrawPercent, upsetScoreDiff, xgHF, xgAF, xgHA, xgAA]. \<bar>x\<bar> \<le> 700"
  show "let sh = 0.40 * poissonHomeProb + 0.20 * (eloDiff / 100) + 0.10 * ppgDiff +
                0.15 * homeOsl - 0.10 * (xgHA - xgHF);
           sd = 0.30 * (avgDrawPercent / 100) + 0.20 * drawOsl + 0.10 * (1 - \<bar>ppgDiff\<bar>);
           sa = 0.35 * (1 - poissonHomeProb) + 0.20 * (- eloDiff / 100) +
                0.10 * (- ppgDiff) + 0.15 * awayOsl;
           s = exp sh + exp sd + exp sa;
           h = exp sh / s; d = exp sd / s; a = exp sa / s
       in demo_proba [Fin eloDiff, Fin ppgDiff, Fin homeOsl, Fin drawOsl, Fin awayOsl,
                      Fin poissonHomeProb, Fin avgDrawPercent, Fin upsetScoreDiff,
                      Fin xgHF, Fin xgAF, Fin xgHA, Fin xgAA] =
            Inr [(''home'', Fin h), (''draw'', Fin d), (''away'', Fin a)] \<and>
          0 \<le> h \<and> 0 \<le> d \<and> 0 \<le> a \<and> h + d + a = 1"
    unfolding demo_proba_values [OF b] Let_def
    using softmax3 by (simp add: less_imp_le)
next
  fix mdl :: estimator and vec ps
  assume h: "predict_proba_row mdl vec = Inr (map Fin ps) \<and> (\<forall>p \<in> set ps. 0 \<le> p \<and> p \<le> 1)"
  then have row: "predict_proba_row mdl vec = Inr (map Fin ps)"
    and nn: "\<forall>p \<in> set ps. 0 \<le> p" by simp_all
  define cls where "cls = model_classes mdl (map Fin ps)"
  define a where "a = class_proba cls ps 0"
  define b where "b = class_proba cls ps 1"
  define c where "c = class_proba cls ps 2"
  have pos: "0 \<le> a" "0 \<le> b" "0 \<le> c"
    unfolding a_def b_def c_def using nn by (simp_all add: class_proba_nonneg)
  have none: "a = 0 \<and> b = 0 \<and> c = 0" if "\<forall>k \<in> set cls. k \<noteq> 0 \<and> k \<noteq> 1 \<and> k \<noteq> 2"
    unfolding a_def b_def c_def using that by (auto intro: class_proba_absent)
  have r: "extract_proba_from_model mdl vec =
     Inr [(''home'', Fin (if 0 < a + b + c then a / (a + b + c) else 1 / 3)),
          (''draw'', Fin (if 0 < a + b + c then b / (a + b + c) else 1 / 3)),
          (''away'', Fin (if 0 < a + b + c then c / (a + b + c) else 1 / 3))]"
    unfolding extract_proba_values [OF row] Let_def a_def b_def c_def cls_def ..
  show "let cls = model_classes mdl (map Fin ps);
            a = class_proba cls ps 0; b = class_proba cls ps 1; c = class_proba cls ps 2;
            s = a + b + c;
            h = (if 0 < s then a / s else 1 / 3);
            d = (if 0 < s then b / s else 1 / 3);
            w = (if 0 < s then c / s else 1 / 3)
        in extract_proba_from_model mdl vec =
             Inr [(''home'', Fin h), (''draw'', Fin d), (''away'', Fin w)] \<and>
           0 \<le> h \<and> 0 \<le> d \<and> 0 \<le> w \<and> h + d + w = 1 \<and>
           (s = 0 \<longrightarrow> h = 1 / 3 \<and> d = 1 / 3 \<and> w = 1 / 3) \<and>
           ((\<forall>k \<in> set cls. k \<noteq> 0 \<and> k \<noteq> 1 \<and> k \<noteq> 2) \<longrightarrow>
              h = 1 / 3 \<and> d = 1 / 3 \<and> w = 1 / 3)"
    unfolding Let_def cls_def [symmetric] a_def [symmetric] b_def [symmetric]
      c_def [symmetric]
    using r normalized3 [OF pos] none by auto
next
  fix cls :: "int list" and ps :: "real list" and c
  assume "c \<notin> set cls"
  then show "class_proba cls ps c = 0" by (rule class_proba_absent)
next
  fix cls :: "int list" and ps :: "real list" and i
  assume "distinct cls \<and> i < length cls \<and> i < length ps"
  then show "class_proba cls ps (cls ! i) = ps ! i"
    by (simp add: class_proba_distinct)
next
  fix pl feat ph pd pa
  assume h: "(if truthy (dict_get pl ''features'') then dict_get pl ''features'' else PDict []) =
         PDict feat \<and>
       (case model st of
          None \<Rightarrow> demo_proba (vec_from_features py feat)
        | Some mdl \<Rightarrow> extract_proba_from_model mdl (vec_from_features py feat)) =
         Inr [(''home'', ph), (''draw'', pd), (''away'', pa)]"
  show "\<exists>body. predict_proba py st (PDict pl) = (st, Inr body) \<and>
          dict_get body ''proba'' =
            PDict [(''home'', PFloat ph), (''draw'', PFloat pd), (''away'', PFloat pa)]"
    by (rule predict_proba_relays [OF h [THEN conjunct1] h [THEN conjunct2]])
qed

theorem predict_proba_normalized_witness:
  "demo_proba (vec_from_features example_env [(''eloDiff'', PInt 100), (''ppgDiff'', PInt 1)]) =
     Inr [(''home'', Fin (exp (3 / 10) / (exp (3 / 10) + 1 + exp (1 / 20)))),
          (''draw'', Fin (1 / (exp (3 / 10) + 1 + exp (1 / 20)))),
          (''away'', Fin (exp (1 / 20) / (exp (3 / 10) + 1 + exp (1 / 20))))] \<and>
   exp (3 / 10) / (exp (3 / 10) + 1 + exp (1 / 20)) + 1 / (exp (3 / 10) + 1 + exp (1 / 20)) +
     exp (1 / 20) / (exp (3 / 10) + 1 + exp (1 / 20)) = (1 :: real) \<and>
   extract_proba_from_model example_estimator_four
     (vec_from_features example_env [(''eloDiff'', PInt 100), (''ppgDiff'', PInt 1)]) =
     Inr [(''home'', Fin (1 / 2)), (''draw'', Fin (1 / 4)), (''away'', Fin (1 / 4))] \<and>
   (\<exists>body. predict_proba example_env (example_state\<lparr>model := Some example_estimator_four\<rparr>)
             (PDict [(''features'', PDict [(''eloDiff'', PInt 100), (''ppgDiff'', PInt 1)])]) =
             (example_state\<lparr>model := Some example_estimator_four\<rparr>, Inr body) \<and>
           dict_get body ''proba'' =
             PDict [(''home'', PFloat (Fin (1 / 2))), (''draw'', PFloat (Fin (1 / 4))),
                    (''away'', PFloat (Fin (1 / 4)))]) \<and>
   (\<exists>body. predict_proba example_env example_state
             (PDict [(''features'', PDict [(''eloDiff'', PInt 100), (''ppgDiff'', PInt 1)])]) =
             (example_state, Inr body) \<and>
           dict_get body ''proba'' =
             PDict [(''home'', PFloat (Fin (exp (3 / 10) / (exp (3 / 10) + 1 + exp (1 / 20))))),
                    (''draw'', PFloat (Fin (1 / (exp (3 / 10) + 1 + exp (1 / 20))))),
                    (''away'', PFloat (Fin (exp (1 / 20) / (exp (3 / 10) + 1 + exp (1 / 20)))))])"
proof -
  let ?feat = "[(''eloDiff'', PInt 100), (''ppgDiff'', PInt 1)]"
  let ?pl = "[(''features'', PDict ?feat)]"
  let ?st4 = "example_state\<lparr>model := Some example_estimator_four\<rparr>"
  let ?s = "exp (3 / 10) + 1 + exp (1 / 20) :: real"
  note t0 = predict_proba_normalized [where py = example_env and st = example_state]
  note t4 = predict_proba_normalized [where py = example_env and st = ?st4]
  have v: "vec_from_features example_env ?feat =
     [Fin 100, Fin 1, Fin 0, Fin 0, Fin 0, Fin 0, Fin 0, Fin 0, Fin 0, Fin 0, Fin 0, Fin 0]"
    by (simp add: vec_from_features_def FEATURE_KEYS_def safe_num_def dict_get_def DBL_MAX_def)
  have bnd: "\<forall>x \<in> set [100, 1, 0, 0, 0, 0, 0, 0, 0, 0, 0, 0 :: real]. \<bar>x\<bar> \<le> 700" by simp
  from t0 [THEN conjunct1, THEN spec, THEN spec, THEN spec, THEN spec, THEN spec, THEN spec,
           THEN spec, THEN spec, THEN spec, THEN spec, THEN spec, THEN spec, THEN mp, OF bnd]
  have h: "demo_proba (vec_from_features example_env ?feat) =
     Inr [(''home'', Fin (exp (3 / 10) / ?s)), (''draw'', Fin (1 / ?s)),
          (''away'', Fin (exp (1 / 20) / ?s))] \<and>
     exp (3 / 10) / ?s + 1 / ?s + exp (1 / 20) / ?s = 1"
    unfolding v Let_def by (simp del: demo_proba.simps)
  have row: "predict_proba_row example_estimator_four (vec_from_features example_env ?feat) =
               Inr (map Fin [0.2, 0.1, 0.1, 0.6]) \<and>
             (\<forall>p \<in> set [0.2, 0.1, 0.1, 0.6 :: real]. 0 \<le> p \<and> p \<le> 1)"
    by (simp add: example_estimator_four_def)
  have cls: "model_classes example_estimator_four (map Fin [0.2, 0.1, 0.1, 0.6]) = [0, 1, 2, 3]"
    by (simp add: model_classes_def example_estimator_four_def)
  note cp = t0 [THEN conjunct2, THEN conjunct2, THEN conjunct2, THEN conjunct1, rule_format,
                of "[0, 1, 2, 3]" _ "[0.2, 0.1, 0.1, 0.6]"]
  have a: "class_proba [0, 1, 2, 3] [0.2, 0.1, 0.1, 0.6] 0 = 0.2"
    using cp [of 0] by simp
  have b: "class_proba [0, 1, 2, 3] [0.2, 0.1, 0.1, 0.6] 1 = 0.1"
    using cp [of 1] by simp
  have c: "class_proba [0, 1, 2, 3] [0.2, 0.1, 0.1, 0.6] 2 = 0.1"
    using cp [of 2] by simp
  from t0 [THEN conjunct2, THEN conjunct1, rule_format, OF row]
  have m: "extract_proba_from_model example_estimator_four
       (vec_from_features example_env ?feat) =
     Inr [(''home'', Fin (1 / 2)), (''draw'', Fin (1 / 4)), (''away'', Fin (1 / 4))]"
    unfolding Let_def cls a b c by simp
  have f: "(if truthy (dict_get ?pl ''features'') then dict_get ?pl ''features'' else PDict []) =
             PDict ?feat"
    by (simp add: dict_get_def)
  have hyp4: "(if truthy (dict_get ?pl ''features'') then dict_get ?pl ''features''
               else PDict []) = PDict ?feat \<and>
       (case model ?st4 of
          None \<Rightarrow> demo_proba (vec_from_features example_env ?feat)
        | Some mdl \<Rightarrow> extract_proba_from_model mdl (vec_from_features example_env ?feat)) =
         Inr [(''home'', Fin (1 / 2)), (''draw'', Fin (1 / 4)), (''away'', Fin (1 / 4))]"
    using f m by simp
  have hyp0: "(if truthy (dict_get ?pl ''features'') then dict_get ?pl ''features''
               else PDict []) = PDict ?feat \<and>
       (case model example_state of
          None \<Rightarrow> demo_proba (vec_from_features example_env ?feat)
        | Some mdl \<Rightarrow> extract_proba_from_model mdl (vec_from_features example_env ?feat)) =
         Inr [(''home'', Fin (exp (3 / 10) / ?s)), (''draw'', Fin (1 / ?s)),
              (''away'', Fin (exp (1 / 20) / ?s))]"
    using f h by (simp add: example_state_def)
  note e4 = t4 [THEN conjunct2, THEN conjunct2, THEN conjunct2, THEN conjunct2, rule_format,
                OF hyp4]
  note e0 = t0 [THEN conjunct2, THEN conjunct2, THEN conjunct2, THEN conjunct2, rule_format,
                OF hyp0]
  from h m e4 e0 show ?thesis by (intro conjI) simp_all
qed

text \<open>
  The bound on the features is needed. \<open>_safe_num\<close> lets an infinite value through, and
  with an infinite \<open>eloDiff\<close> the home score is \<open>inf\<close>, its exponential and the sum of the
  exponentials are \<open>inf\<close>, and the home probability \<open>inf / inf\<close> is NaN, while the two
  others are 0; the handler returns them. With \<open>poissonHomeProb\<close> 5000 the home score is
  2000, and \<open>math.exp\<close> raises \<open>OverflowError\<close>.
\<close>

theorem predict_proba_infinite_feature:
  "demo_proba (vec_from_features example_env [(''eloDiff'', PFloat PInf)]) =
     Inr [(''home'', NaN), (''draw'', Fin 0), (''away'', Fin 0)] \<and>
   snd (predict_proba example_env example_state
          (PDict [(''features'', PDict [(''eloDiff'', PFloat PInf)])])) =
     Inr [(''proba'', PDict [(''home'', PFloat NaN), (''draw'', PFloat (Fin 0)),
                             (''away'', PFloat (Fin 0))]),
          (''predicted_winner'', PStr (ustr ''home'')),
          (''predicted_winner_label'', PStr (ustr ''Home'')),
          (''predicted_winner_prob'', PFloat NaN),
          (''model_version'', PStr (ustr ''demo-1.0'')),
          (''ts'', PStr (ustr ''20240101_120000''))] \<and>
   demo_proba (vec_from_features example_env [(''poissonHomeProb'', PInt 5000)]) =
     Inl OverflowError"
proof -
  have w: "vec_from_features example_env [(''poissonHomeProb'', PInt 5000)] =
     [Fin 0, Fin 0, Fin 0, Fin 0, Fin 0, Fin 5000, Fin 0, Fin 0, Fin 0, Fin 0, Fin 0, Fin 0]"
    by (simp add: vec_from_features_def FEATURE_KEYS_def safe_num_def dict_get_def DBL_MAX_def)
  have big: "DBL_MAX < exp 2000"
    by (rule DBL_MAX_less_exp) simp
  have o: "demo_proba (vec_from_features example_env [(''poissonHomeProb'', PInt 5000)]) =
     Inl OverflowError"
    unfolding w
    by (simp add: bindE_def fsub_def Let_def big)
  have v: "vec_from_features example_env [(''eloDiff'', PFloat PInf)] =
     [PInf, Fin 0, Fin 0, Fin 0, Fin 0, Fin 0, Fin 0, Fin 0, Fin 0, Fin 0, Fin 0, Fin 0]"
    by (simp add: vec_from_features_def FEATURE_KEYS_def safe_num_def dict_get_def)
  have e: "\<not> DBL_MAX < exp (1 / 10)"
    using exp_le_DBL_MAX [of "1 / 10"] by simp
  have d: "demo_proba (vec_from_features example_env [(''eloDiff'', PFloat PInf)]) =
     Inr [(''home'', NaN), (''draw'', Fin 0), (''away'', Fin 0)]"
    unfolding v
    by (simp add: bindE_def fsub_def inf_times_def Let_def e)
  have m: "model example_state = None" "model_version example_state = ustr ''demo-1.0''"
    by (simp_all add: example_state_def)
  have t: "timestamp_str example_env = ustr ''20240101_120000''"
    by (simp add: example_env_def)
  have "snd (predict_proba example_env example_state
          (PDict [(''features'', PDict [(''eloDiff'', PFloat PInf)])])) =
     Inr [(''proba'', PDict [(''home'', PFloat NaN), (''draw'', PFloat (Fin 0)),
                             (''away'', PFloat (Fin 0))]),
          (''predicted_winner'', PStr (ustr ''home'')),
          (''predicted_winner_label'', PStr (ustr ''Home'')),
          (''predicted_winner_prob'', PFloat NaN),
          (''model_version'', PStr (ustr ''demo-1.0'')),
          (''ts'', PStr (ustr ''20240101_120000''))]"
    by (simp add: predict_proba_def dict_get_def d m t bindE_def label_map_def)
  with d o show ?thesis by simp
qed

end
